theory Spec2Isabelle
  imports Main "HOL-Library.AList"
begin

section \<open>Python values and dictionaries\<close>

text \<open>
  The configuration mappings the tool functions receive are JSON-like Python values.
  A \<open>dict\<close> keeps its insertion order, so it is an association list; the operations
  below are the ones the source uses on it (\<open>in\<close>, \<open>pop\<close>, \<open>d[k] = v\<close>).
  Floats are left out: for every operation modelled here they behave as \<open>PInt\<close>.
\<close>

datatype pyval =
    PNone
  | PBool bool
  | PInt int
  | PStr string
  | PList "pyval list"
  | PDict "(string \<times> pyval) list"

type_synonym pydict = "(string \<times> pyval) list"

definition dict_has :: "string \<Rightarrow> pydict \<Rightarrow> bool" where
  "dict_has k d = (k \<in> set (map fst d))"

definition dict_get :: "string \<Rightarrow> pydict \<Rightarrow> pyval option" where
  "dict_get k d = map_of d k"

text \<open>\<open>d[k] = v\<close>: an existing key keeps its position, a new key goes last.\<close>

definition dict_set :: "string \<Rightarrow> pyval \<Rightarrow> pydict \<Rightarrow> pydict" where
  "dict_set k v d = AList.update k v d"

definition dict_del :: "string \<Rightarrow> pydict \<Rightarrow> pydict" where
  "dict_del k d = AList.delete k d"

text \<open>Python truthiness (\<open>if x:\<close>, \<open>not x\<close>).\<close>

fun truthy :: "pyval \<Rightarrow> bool" where
  "truthy PNone = False"
| "truthy (PBool b) = b"
| "truthy (PInt i) = (i \<noteq> 0)"
| "truthy (PStr s) = (s \<noteq> [])"
| "truthy (PList xs) = (xs \<noteq> [])"
| "truthy (PDict d) = (d \<noteq> [])"

subsection \<open>Strings\<close>

text \<open>
  \<open>s in t\<close> on strings is the substring test. \<open>str.lower\<close> is modelled on ASCII
  letters; other bytes are kept.
\<close>

fun starts_with :: "string \<Rightarrow> string \<Rightarrow> bool" where
  "starts_with [] t = True"
| "starts_with (c # s) [] = False"
| "starts_with (c # s) (d # t) = (c = d \<and> starts_with s t)"

fun sub_in :: "string \<Rightarrow> string \<Rightarrow> bool" where
  "sub_in s [] = (s = [])"
| "sub_in s (c # t) = (starts_with s (c # t) \<or> sub_in s t)"

definition lower_char :: "char \<Rightarrow> char" where
  "lower_char c =
     (let n = (of_char c :: nat) in if 65 \<le> n \<and> n \<le> 90 then char_of (n + 32) else c)"

definition upper_char :: "char \<Rightarrow> char" where
  "upper_char c =
     (let n = (of_char c :: nat) in if 97 \<le> n \<and> n \<le> 122 then char_of (n - 32) else c)"

definition lower :: "string \<Rightarrow> string" where
  "lower s = map lower_char s"

text \<open>\<open>str.capitalize\<close>: first character upper case, the rest lower case.\<close>

definition capitalize :: "string \<Rightarrow> string" where
  "capitalize s = (case s of [] \<Rightarrow> [] | c # cs \<Rightarrow> upper_char c # lower cs)"

text \<open>\<open>s.replace('-', '_')\<close>, the only replacement the source performs.\<close>

definition replace_char :: "char \<Rightarrow> char \<Rightarrow> string \<Rightarrow> string" where
  "replace_char a b s = map (\<lambda>c. if c = a then b else c) s"

text \<open>\<open>sep.join(xs)\<close>.\<close>

fun join :: "string \<Rightarrow> string list \<Rightarrow> string" where
  "join sep [] = []"
| "join sep [x] = x"
| "join sep (x # y # ys) = x @ sep @ join sep (y # ys)"

section \<open>Exceptions\<close>

text \<open>
  The exception classes the handlers of the source tell apart. \<open>NotFound\<close> and
  \<open>InvalidArgument\<close> are subclasses of \<open>GoogleAPICallError\<close> (codes 404 and 400);
  \<open>GoogleAPICallError\<close> stands for every other subclass and carries its \<open>code\<close>.
  \<open>GoogleAPIError\<close> is the base class outside the call errors, \<open>PyException\<close>
  any other subclass of \<open>Exception\<close> (class name, \<open>str(e)\<close>), and \<open>BaseExc\<close> an
  exception outside \<open>Exception\<close> (KeyboardInterrupt, SystemExit, CancelledError), which
  no \<open>except Exception\<close> catches.

  An API call error has a \<open>message\<close>; \<open>str(e)\<close> is built by the client library around
  that message, so it is the message between a prefix and a suffix the error carries.
\<close>

record apierr =
  message :: string
  str_pre :: string
  str_post :: string

datatype exn =
    NotFound apierr
  | InvalidArgument apierr
  | GoogleAPICallError "int option" apierr
  | GoogleAPIError string
  | PyException string string
  | BaseExc string

fun is_NotFound :: "exn \<Rightarrow> bool" where
  "is_NotFound (NotFound a) = True"
| "is_NotFound e = False"

fun is_InvalidArgument :: "exn \<Rightarrow> bool" where
  "is_InvalidArgument (InvalidArgument a) = True"
| "is_InvalidArgument e = False"

fun is_GoogleAPICallError :: "exn \<Rightarrow> bool" where
  "is_GoogleAPICallError (NotFound a) = True"
| "is_GoogleAPICallError (InvalidArgument a) = True"
| "is_GoogleAPICallError (GoogleAPICallError c a) = True"
| "is_GoogleAPICallError e = False"

fun is_GoogleAPIError :: "exn \<Rightarrow> bool" where
  "is_GoogleAPIError (GoogleAPIError s) = True"
| "is_GoogleAPIError e = is_GoogleAPICallError e"

fun is_Exception :: "exn \<Rightarrow> bool" where
  "is_Exception (BaseExc s) = False"
| "is_Exception e = True"

text \<open>\<open>e.message\<close>, \<open>e.code\<close> and \<open>str(e)\<close>.\<close>

fun message_of :: "exn \<Rightarrow> string" where
  "message_of (NotFound a) = message a"
| "message_of (InvalidArgument a) = message a"
| "message_of (GoogleAPICallError c a) = message a"
| "message_of e = []"

fun code_of :: "exn \<Rightarrow> int option" where
  "code_of (NotFound a) = Some 404"
| "code_of (InvalidArgument a) = Some 400"
| "code_of (GoogleAPICallError c a) = c"
| "code_of e = None"

definition api_str :: "apierr \<Rightarrow> string" where
  "api_str a = str_pre a @ message a @ str_post a"

fun str_of :: "exn \<Rightarrow> string" where
  "str_of (NotFound a) = api_str a"
| "str_of (InvalidArgument a) = api_str a"
| "str_of (GoogleAPICallError c a) = api_str a"
| "str_of (GoogleAPIError s) = s"
| "str_of (PyException c s) = s"
| "str_of (BaseExc s) = s"

section \<open>The client library and the remote service\<close>

text \<open>
  The tool functions call the Google Cloud client libraries: they construct a client,
  ask it for a resource path, construct message and request objects, invoke a remote
  method, and poll a long-running operation. None of that code is in the repository, so
  it is a parameter of the model: a \<open>world\<close> says, for each such call and the events
  so far, whether the call raises and what it returns. Every call and every exception
  raised is appended to an event log, so that a theorem can say which requests were
  sent.
\<close>

datatype xval =
    XVal pyval
  | XDict "(string \<times> xval) list"
  | XMsg string "xval list" "(string \<times> xval) list"

text \<open>
  What a remote method returns: nothing, a message (given by its \<open>MessageToDict\<close>
  image), a pager (the items it yields, then the exception that ends the iteration if
  any), a long-running operation (\<open>operation.operation.name\<close>,
  \<open>str(operation.metadata)\<close>), or a submitted Dataproc job (\<open>reference.job_id\<close>,
  \<open>status.state.name\<close>, \<open>placement.cluster_name\<close>, \<open>type_case.name\<close>).
\<close>

datatype resp =
    RNone
  | RMsg pyval
  | RPager "pyval list" "exn option"
  | ROp string string
  | RJob string string string string

datatype event =
    NewClient string "(string \<times> xval) list"
  | PathCall string "string list"
  | Build string "xval list" "(string \<times> xval) list"
  | Rpc string xval
  | OpException resp
  | Uuid4
  | Raised exn

fun is_network :: "event \<Rightarrow> bool" where
  "is_network (Rpc m r) = True"
| "is_network (OpException operation) = True"
| "is_network ev = False"

fun is_raised :: "event \<Rightarrow> bool" where
  "is_raised (Raised e) = True"
| "is_raised ev = False"

record world =
  client_new :: "event list \<Rightarrow> string \<Rightarrow> (string \<times> xval) list \<Rightarrow> exn option"
  path_of :: "event list \<Rightarrow> string \<Rightarrow> string list \<Rightarrow> exn + string"
  build_msg :: "event list \<Rightarrow> string \<Rightarrow> xval list \<Rightarrow> (string \<times> xval) list \<Rightarrow> exn option"
  remote :: "event list \<Rightarrow> string \<Rightarrow> xval \<Rightarrow> exn + resp"
  op_exception :: "event list \<Rightarrow> resp \<Rightarrow> exn + string option"
  uuid4 :: "event list \<Rightarrow> string"

text \<open>
  The state a call runs in: the event log, and the caller's configuration dictionary.
  A \<open>dict\<close> argument is a reference to the caller's object, so what the function does
  to it in place is what the caller sees afterwards: \<open>details\<close> of the final state.
  (Nested dictionaries are part of the value: two references to one nested object are
  not modelled.)
\<close>

record st =
  calls :: "event list"
  details :: pydict

type_synonym 'a prog = "st \<Rightarrow> (exn + 'a) \<times> st"

definition ret :: "'a \<Rightarrow> 'a prog" where
  "ret x = (\<lambda>s. (Inr x, s))"

text \<open>\<open>raise\<close> logs the exception; \<open>propagate\<close> lets an uncaught one go on.\<close>

definition raise :: "exn \<Rightarrow> 'a prog" where
  "raise e = (\<lambda>s. (Inl e, s\<lparr>calls := calls s @ [Raised e]\<rparr>))"

definition propagate :: "exn \<Rightarrow> 'a prog" where
  "propagate e = (\<lambda>s. (Inl e, s))"

definition pbind :: "'a prog \<Rightarrow> ('a \<Rightarrow> 'b prog) \<Rightarrow> 'b prog" where
  "pbind m f = (\<lambda>s. case m s of (Inl e, s') \<Rightarrow> (Inl e, s') | (Inr x, s') \<Rightarrow> f x s')"

definition try_except :: "'a prog \<Rightarrow> (exn \<Rightarrow> 'a prog) \<Rightarrow> 'a prog" where
  "try_except m h = (\<lambda>s. case m s of (Inl e, s') \<Rightarrow> h e s' | (Inr x, s') \<Rightarrow> (Inr x, s'))"

definition lift :: "exn + 'a \<Rightarrow> 'a prog" where
  "lift r = (case r of Inl e \<Rightarrow> raise e | Inr x \<Rightarrow> ret x)"

text \<open>A call into the library: logged, then answered by the world.\<close>

definition ext :: "event \<Rightarrow> (event list \<Rightarrow> exn + 'a) \<Rightarrow> 'a prog" where
  "ext ev f = (\<lambda>s. case f (calls s) of
       Inl e \<Rightarrow> (Inl e, s\<lparr>calls := calls s @ [ev, Raised e]\<rparr>)
     | Inr x \<Rightarrow> (Inr x, s\<lparr>calls := calls s @ [ev]\<rparr>))"

definition run :: "pydict \<Rightarrow> 'a prog \<Rightarrow> (exn + 'a) \<times> st" where
  "run d m = m \<lparr>calls = [], details = d\<rparr>"

definition get_details :: "pydict prog" where
  "get_details = (\<lambda>s. (Inr (details s), s))"

definition put_details :: "pydict \<Rightarrow> unit prog" where
  "put_details d = (\<lambda>s. (Inr (), s\<lparr>details := d\<rparr>))"

definition new_client :: "world \<Rightarrow> string \<Rightarrow> (string \<times> xval) list \<Rightarrow> unit prog" where
  "new_client w cls kw =
     ext (NewClient cls kw)
       (\<lambda>tr. case client_new w tr cls kw of None \<Rightarrow> Inr () | Some e \<Rightarrow> Inl e)"

definition path_call :: "world \<Rightarrow> string \<Rightarrow> string list \<Rightarrow> string prog" where
  "path_call w helper parts = ext (PathCall helper parts) (\<lambda>tr. path_of w tr helper parts)"

text \<open>A constructed message or request object is the record of how it was built.\<close>

definition build :: "world \<Rightarrow> string \<Rightarrow> xval list \<Rightarrow> (string \<times> xval) list \<Rightarrow> xval prog" where
  "build w cls args kw =
     ext (Build cls args kw)
       (\<lambda>tr. case build_msg w tr cls args kw of
                None \<Rightarrow> Inr (XMsg cls args kw) | Some e \<Rightarrow> Inl e)"

definition rpc :: "world \<Rightarrow> string \<Rightarrow> xval \<Rightarrow> resp prog" where
  "rpc w method request = ext (Rpc method request) (\<lambda>tr. remote w tr method request)"

definition xstr :: "string \<Rightarrow> xval" where
  "xstr s = XVal (PStr s)"

text \<open>\<open>**d\<close>: the entries of a dictionary as keyword arguments.\<close>

definition kwargs :: "pydict \<Rightarrow> (string \<times> xval) list" where
  "kwargs d = map (\<lambda>(k, v). (k, XVal v)) d"

text \<open>
  \<open>Cls(name=n, **d)\<close>: the interpreter itself raises TypeError when \<open>d\<close> has the key
  \<open>name\<close> too.
\<close>

definition kwargs_named :: "string \<Rightarrow> pydict \<Rightarrow> (string \<times> xval) list prog" where
  "kwargs_named n d =
     (if dict_has ''name'' d
      then raise (PyException ''TypeError'' ''got multiple values for keyword argument name'')
      else ret ((''name'', xstr n) # kwargs d))"

definition sq :: string where
  "sq = [CHR 0x27]"

definition error_dict :: "string \<Rightarrow> pyval" where
  "error_dict msg = PDict [(''error'', PStr msg)]"

text \<open>\<open>MessageToDict(m._pb, preserving_proto_field_name=True)\<close>.\<close>

definition message_to_dict :: "resp \<Rightarrow> pyval prog" where
  "message_to_dict r =
     (case r of
        RMsg d \<Rightarrow> ret d
      | _ \<Rightarrow> raise (PyException ''AttributeError'' ''object has no attribute _pb''))"

text \<open>Iterating a pager: its items, or the exception that ends it.\<close>

definition iterate :: "resp \<Rightarrow> pyval list prog" where
  "iterate r =
     (case r of
        RPager items None \<Rightarrow> ret items
      | RPager items (Some e) \<Rightarrow> raise e
      | _ \<Rightarrow> raise (PyException ''TypeError'' ''object is not iterable''))"

definition op_exc :: "world \<Rightarrow> resp \<Rightarrow> string option prog" where
  "op_exc w operation =
     (case operation of
        ROp n m \<Rightarrow> ext (OpException operation) (\<lambda>tr. op_exception w tr operation)
      | _ \<Rightarrow> raise (PyException ''AttributeError'' ''object has no attribute exception''))"

definition op_name :: "resp \<Rightarrow> string prog" where
  "op_name operation =
     (case operation of
        ROp n m \<Rightarrow> ret n
      | _ \<Rightarrow> raise (PyException ''AttributeError'' ''object has no attribute operation''))"

definition op_metadata :: "resp \<Rightarrow> string prog" where
  "op_metadata operation =
     (case operation of
        ROp n m \<Rightarrow> ret m
      | _ \<Rightarrow> raise (PyException ''AttributeError'' ''object has no attribute metadata''))"

text \<open>\<open>str(x)\<close> of what \<open>operation.exception()\<close> returned.\<close>

definition str_opt :: "string option \<Rightarrow> string" where
  "str_opt x = (case x of None \<Rightarrow> ''None'' | Some s \<Rightarrow> s)"

section \<open>The reserved-word rename\<close>

text \<open>
  The source renames the key \<open>type\<close> with the statement
  \<^verbatim>\<open>d['type_'] = d.pop('type')\<close>, guarded by \<^verbatim>\<open>'type' in d\<close>. On a dictionary this is
  \<open>rename_type\<close>. The asset and task functions apply it to a nested value,
  \<^verbatim>\<open>if k in d and 'type' in d[k]: d[k]['type_'] = d[k].pop('type')\<close>, whatever Python
  value \<open>d[k]\<close> is: \<open>in\<close> is key membership on a dict, the substring test on a
  string, element membership on a list and a TypeError otherwise; \<open>pop\<close> with a string
  argument exists on a dict only. (The texts of the interpreter's own exceptions differ
  between Python versions and are abbreviated.)
\<close>

definition rename_type :: "pydict \<Rightarrow> pydict" where
  "rename_type d =
     (case dict_get ''type'' d of
        None \<Rightarrow> d
      | Some v \<Rightarrow> dict_set ''type_'' v (dict_del ''type'' d))"

fun py_contains :: "string \<Rightarrow> pyval \<Rightarrow> exn + bool" where
  "py_contains k (PDict d) = Inr (dict_has k d)"
| "py_contains k (PStr s) = Inr (sub_in k s)"
| "py_contains k (PList xs) = Inr (PStr k \<in> set xs)"
| "py_contains k v = Inl (PyException ''TypeError'' ''argument is not iterable'')"

fun py_pop :: "string \<Rightarrow> pyval \<Rightarrow> exn + pyval \<times> pyval" where
  "py_pop k (PDict d) =
     (case dict_get k d of
        None \<Rightarrow> Inl (PyException ''KeyError'' k)
      | Some x \<Rightarrow> Inr (x, PDict (dict_del k d)))"
| "py_pop k (PList xs) =
     Inl (PyException ''TypeError'' ''str object cannot be interpreted as an integer'')"
| "py_pop k v = Inl (PyException ''AttributeError'' ''object has no attribute pop'')"

fun py_setitem :: "string \<Rightarrow> pyval \<Rightarrow> pyval \<Rightarrow> exn + pyval" where
  "py_setitem k x (PDict d) = Inr (PDict (dict_set k x d))"
| "py_setitem k x v =
     Inl (PyException ''TypeError'' ''object does not support item assignment'')"

definition rename_type_in :: "string \<Rightarrow> pydict \<Rightarrow> exn + pydict" where
  "rename_type_in k d =
     (case dict_get k d of
        None \<Rightarrow> Inr d
      | Some v \<Rightarrow>
          (case py_contains ''type'' v of
             Inl e \<Rightarrow> Inl e
           | Inr False \<Rightarrow> Inr d
           | Inr True \<Rightarrow>
               (case py_pop ''type'' v of
                  Inl e \<Rightarrow> Inl e
                | Inr (x, v') \<Rightarrow>
                    (case py_setitem ''type_'' x v' of
                       Inl e \<Rightarrow> Inl e
                     | Inr v'' \<Rightarrow> Inr (dict_set k v'' d)))))"

text \<open>The two steps on the caller's dictionary, as the tool functions run them.\<close>

definition rename_top_step :: "unit prog" where
  "rename_top_step = pbind get_details (\<lambda>d. put_details (rename_type d))"

definition rename_nested_step :: "string \<Rightarrow> unit prog" where
  "rename_nested_step k =
     pbind get_details (\<lambda>d. pbind (lift (rename_type_in k d)) (\<lambda>d'. put_details d'))"

section \<open>dataplex\_service\_tools.py\<close>

text \<open>
  \<open>_handle_lro\<close>. \<open>operation.exception()\<close> is evaluated three times when it is truthy
  (the test, the print, the returned message). Printing is not modelled, the calls its
  arguments make are.
\<close>

definition handle_lro :: "world \<Rightarrow> resp \<Rightarrow> string \<Rightarrow> pyval prog" where
  "handle_lro w operation operation_description =
     pbind (op_exc w operation) (\<lambda>x1.
       if x1 \<noteq> None then
         pbind (op_exc w operation) (\<lambda>x2.
         pbind (op_exc w operation) (\<lambda>x3.
           ret (error_dict (''Error during '' @ operation_description @ '': '' @ str_opt x3))))
       else
         pbind (op_name operation) (\<lambda>n.
         pbind (op_metadata operation) (\<lambda>m.
           ret (PDict [(''status'', PStr ''pending''), (''operation_name'', PStr n),
                       (''metadata'', PStr m)]))))"

subsection \<open>Lake operations\<close>

definition create_dataplex_lake ::
  "world \<Rightarrow> string \<Rightarrow> string \<Rightarrow> string \<Rightarrow> pydict \<Rightarrow> (exn + pyval) \<times> st" where
  "create_dataplex_lake w project_id location lake_id lake_details =
     run lake_details (try_except
       (pbind (new_client w ''DataplexServiceClient'' []) (\<lambda>client.
        pbind (path_call w ''common_location_path'' [project_id, location]) (\<lambda>parent.
        pbind get_details (\<lambda>d.
        pbind (build w ''Lake'' [XVal (PDict d)] []) (\<lambda>lake_obj.
        pbind (build w ''CreateLakeRequest'' []
                 [(''parent'', xstr parent), (''lake_id'', xstr lake_id), (''lake'', lake_obj)])
          (\<lambda>request.
        pbind (rpc w ''create_lake'' request) (\<lambda>operation.
        handle_lro w operation (''lake creation for '' @ sq @ lake_id @ sq))))))))
       (\<lambda>e. if is_InvalidArgument e then ret (error_dict (''Invalid argument: '' @ message_of e))
            else if is_GoogleAPICallError e
              then ret (error_dict (''API Error creating lake: '' @ message_of e))
            else if is_Exception e
              then ret (error_dict (''Unexpected error creating lake: '' @ str_of e))
            else propagate e))"

definition get_dataplex_lake ::
  "world \<Rightarrow> string \<Rightarrow> string \<Rightarrow> string \<Rightarrow> (exn + pyval) \<times> st" where
  "get_dataplex_lake w project_id location lake_id =
     run [] (try_except
       (pbind (new_client w ''DataplexServiceClient'' []) (\<lambda>client.
        pbind (path_call w ''lake_path'' [project_id, location, lake_id]) (\<lambda>name.
        pbind (build w ''GetLakeRequest'' [] [(''name'', xstr name)]) (\<lambda>request.
        pbind (rpc w ''get_lake'' request) (\<lambda>lake.
        message_to_dict lake)))))
       (\<lambda>e. if is_NotFound e then ret (error_dict (''Lake not found: '' @ lake_id))
            else if is_GoogleAPICallError e
              then ret (error_dict (''API Error getting lake: '' @ message_of e))
            else if is_Exception e
              then ret (error_dict (''Unexpected error getting lake: '' @ str_of e))
            else propagate e))"

definition list_dataplex_lakes ::
  "world \<Rightarrow> string \<Rightarrow> string \<Rightarrow> string \<Rightarrow> (exn + pyval) \<times> st" where
  "list_dataplex_lakes w project_id location filter_str =
     run [] (try_except
       (pbind (new_client w ''DataplexServiceClient'' []) (\<lambda>client.
        pbind (path_call w ''common_location_path'' [project_id, location]) (\<lambda>parent.
        pbind (build w ''ListLakesRequest'' []
                 [(''parent'', xstr parent), (''filter'', xstr filter_str)]) (\<lambda>request.
        pbind (rpc w ''list_lakes'' request) (\<lambda>pager.
        pbind (iterate pager) (\<lambda>lakes_list.
        ret (PList lakes_list)))))))
       (\<lambda>e. if is_GoogleAPICallError e
              then ret (PList [error_dict (''API Error listing lakes: '' @ message_of e)])
            else if is_Exception e
              then ret (error_dict (''Unexpected error listing lakes: '' @ str_of e))
            else propagate e))"

definition update_dataplex_lake ::
  "world \<Rightarrow> string \<Rightarrow> string \<Rightarrow> string \<Rightarrow> string list \<Rightarrow> pydict \<Rightarrow> (exn + pyval) \<times> st" where
  "update_dataplex_lake w project_id location lake_id update_mask updated_lake_details =
     run updated_lake_details (try_except
       (pbind (new_client w ''DataplexServiceClient'' []) (\<lambda>client.
        pbind (path_call w ''lake_path'' [project_id, location, lake_id]) (\<lambda>lake_name.
        pbind get_details (\<lambda>d.
        pbind (kwargs_named lake_name d) (\<lambda>kw.
        pbind (build w ''Lake'' [] kw) (\<lambda>lake_obj.
        pbind (build w ''FieldMask'' [] [(''paths'', XVal (PList (map PStr update_mask)))])
          (\<lambda>field_mask.
        pbind (build w ''UpdateLakeRequest'' []
                 [(''lake'', lake_obj), (''update_mask'', field_mask)]) (\<lambda>request.
        pbind (rpc w ''update_lake'' request) (\<lambda>operation.
        handle_lro w operation (''lake update for '' @ sq @ lake_id @ sq))))))))))
       (\<lambda>e. if is_NotFound e then ret (error_dict (''Lake not found for update: '' @ lake_id))
            else if is_InvalidArgument e
              then ret (error_dict (''Invalid argument: '' @ message_of e))
            else if is_GoogleAPICallError e
              then ret (error_dict (''API Error updating lake: '' @ message_of e))
            else if is_Exception e
              then ret (error_dict (''Unexpected error updating lake: '' @ str_of e))
            else propagate e))"

definition delete_dataplex_lake ::
  "world \<Rightarrow> string \<Rightarrow> string \<Rightarrow> string \<Rightarrow> (exn + pyval) \<times> st" where
  "delete_dataplex_lake w project_id location lake_id =
     run [] (try_except
       (pbind (new_client w ''DataplexServiceClient'' []) (\<lambda>client.
        pbind (path_call w ''lake_path'' [project_id, location, lake_id]) (\<lambda>name.
        pbind (build w ''DeleteLakeRequest'' [] [(''name'', xstr name)]) (\<lambda>request.
        pbind (rpc w ''delete_lake'' request) (\<lambda>operation.
        handle_lro w operation (''lake deletion for '' @ sq @ lake_id @ sq))))))
       (\<lambda>e. if is_NotFound e then ret (error_dict (''Lake not found for deletion: '' @ lake_id))
            else if is_GoogleAPICallError e
              then ret (error_dict (''API Error deleting lake: '' @ message_of e))
            else if is_Exception e
              then ret (error_dict (''Unexpected error deleting lake: '' @ str_of e))
            else propagate e))"

subsection \<open>Zone operations\<close>

definition create_dataplex_zone ::
  "world \<Rightarrow> string \<Rightarrow> string \<Rightarrow> string \<Rightarrow> string \<Rightarrow> pydict \<Rightarrow> (exn + pyval) \<times> st" where
  "create_dataplex_zone w project_id location lake_id zone_id zone_details =
     run zone_details (try_except
       (pbind (new_client w ''DataplexServiceClient'' []) (\<lambda>client.
        pbind (path_call w ''lake_path'' [project_id, location, lake_id]) (\<lambda>parent.
        pbind (rename_top_step) (\<lambda>u.
        pbind get_details (\<lambda>d.
        pbind (build w ''Zone'' [] (kwargs d)) (\<lambda>zone_obj.
        pbind (build w ''CreateZoneRequest'' []
                 [(''parent'', xstr parent), (''zone_id'', xstr zone_id), (''zone'', zone_obj)]) (\<lambda>request.
        pbind (rpc w ''create_zone'' request) (\<lambda>operation.
        handle_lro w operation (''zone creation for '' @ sq @ zone_id @ sq @ '' in lake '' @ sq @ lake_id @ sq)))))))))
       (\<lambda>e. if is_InvalidArgument e
              then ret (error_dict (''Invalid argument: '' @ message_of e))
            else if is_GoogleAPICallError e
              then ret (error_dict (''API Error creating zone: '' @ message_of e))
            else if is_Exception e
              then ret (error_dict (''Unexpected error creating zone: '' @ str_of e))
            else propagate e))"

definition get_dataplex_zone ::
  "world \<Rightarrow> string \<Rightarrow> string \<Rightarrow> string \<Rightarrow> string \<Rightarrow> (exn + pyval) \<times> st" where
  "get_dataplex_zone w project_id location lake_id zone_id =
     run [] (try_except
       (pbind (new_client w ''DataplexServiceClient'' []) (\<lambda>client.
        pbind (path_call w ''zone_path'' [project_id, location, lake_id, zone_id]) (\<lambda>name.
        pbind (build w ''GetZoneRequest'' [] [(''name'', xstr name)]) (\<lambda>request.
        pbind (rpc w ''get_zone'' request) (\<lambda>zone.
        message_to_dict zone)))))
       (\<lambda>e. if is_NotFound e
              then ret (error_dict (''Zone not found: '' @ zone_id))
            else if is_GoogleAPICallError e
              then ret (error_dict (''API Error getting zone: '' @ message_of e))
            else if is_Exception e
              then ret (error_dict (''Unexpected error getting zone: '' @ str_of e))
            else propagate e))"

definition list_dataplex_zones ::
  "world \<Rightarrow> string \<Rightarrow> string \<Rightarrow> string \<Rightarrow> string \<Rightarrow> (exn + pyval) \<times> st" where
  "list_dataplex_zones w project_id location lake_id filter_str =
     run [] (try_except
       (pbind (new_client w ''DataplexServiceClient'' []) (\<lambda>client.
        pbind (path_call w ''lake_path'' [project_id, location, lake_id]) (\<lambda>parent.
        pbind (build w ''ListZonesRequest'' []
                 [(''parent'', xstr parent), (''filter'', xstr filter_str)]) (\<lambda>request.
        pbind (rpc w ''list_zones'' request) (\<lambda>pager.
        pbind (iterate pager) (\<lambda>zones_list.
        ret (PList zones_list)))))))
       (\<lambda>e. if is_NotFound e
              then ret (PList [error_dict (''Parent lake not found: '' @ lake_id)])
            else if is_GoogleAPICallError e
              then ret (PList [error_dict (''API Error listing zones: '' @ message_of e)])
            else if is_Exception e
              then ret (error_dict (''Unexpected error listing zones: '' @ str_of e))
            else propagate e))"

definition update_dataplex_zone ::
  "world \<Rightarrow> string \<Rightarrow> string \<Rightarrow> string \<Rightarrow> string \<Rightarrow> string list \<Rightarrow> pydict \<Rightarrow> (exn + pyval) \<times> st" where
  "update_dataplex_zone w project_id location lake_id zone_id update_mask updated_zone_details =
     run updated_zone_details (try_except
       (pbind (new_client w ''DataplexServiceClient'' []) (\<lambda>client.
        pbind (path_call w ''zone_path'' [project_id, location, lake_id, zone_id]) (\<lambda>zone_name.
        pbind (rename_top_step) (\<lambda>u.
        pbind get_details (\<lambda>d.
        pbind (kwargs_named zone_name d) (\<lambda>kw.
        pbind (build w ''Zone'' [] kw) (\<lambda>zone_obj.
        pbind (build w ''FieldMask'' [] [(''paths'', XVal (PList (map PStr update_mask)))]) (\<lambda>field_mask.
        pbind (build w ''UpdateZoneRequest'' []
                 [(''zone'', zone_obj), (''update_mask'', field_mask)]) (\<lambda>request.
        pbind (rpc w ''update_zone'' request) (\<lambda>operation.
        handle_lro w operation (''zone update for '' @ sq @ zone_id @ sq)))))))))))
       (\<lambda>e. if is_NotFound e
              then ret (error_dict (''Zone not found for update: '' @ zone_id))
            else if is_InvalidArgument e
              then ret (error_dict (''Invalid argument: '' @ message_of e))
            else if is_GoogleAPICallError e
              then ret (error_dict (''API Error updating zone: '' @ message_of e))
            else if is_Exception e
              then ret (error_dict (''Unexpected error updating zone: '' @ str_of e))
            else propagate e))"

definition delete_dataplex_zone ::
  "world \<Rightarrow> string \<Rightarrow> string \<Rightarrow> string \<Rightarrow> string \<Rightarrow> (exn + pyval) \<times> st" where
  "delete_dataplex_zone w project_id location lake_id zone_id =
     run [] (try_except
       (pbind (new_client w ''DataplexServiceClient'' []) (\<lambda>client.
        pbind (path_call w ''zone_path'' [project_id, location, lake_id, zone_id]) (\<lambda>name.
        pbind (build w ''DeleteZoneRequest'' [] [(''name'', xstr name)]) (\<lambda>request.
        pbind (rpc w ''delete_zone'' request) (\<lambda>operation.
        handle_lro w operation (''zone deletion for '' @ sq @ zone_id @ sq))))))
       (\<lambda>e. if is_NotFound e
              then ret (error_dict (''Zone not found for deletion: '' @ zone_id))
            else if is_GoogleAPICallError e
              then ret (error_dict (''API Error deleting zone: '' @ message_of e))
            else if is_Exception e
              then ret (error_dict (''Unexpected error deleting zone: '' @ str_of e))
            else propagate e))"

subsection \<open>Asset operations\<close>

definition create_dataplex_asset ::
  "world \<Rightarrow> string \<Rightarrow> string \<Rightarrow> string \<Rightarrow> string \<Rightarrow> string \<Rightarrow> pydict \<Rightarrow> (exn + pyval) \<times> st" where
  "create_dataplex_asset w project_id location lake_id zone_id asset_id asset_details =
     run asset_details (try_except
       (pbind (new_client w ''DataplexServiceClient'' []) (\<lambda>client.
        pbind (path_call w ''zone_path'' [project_id, location, lake_id, zone_id]) (\<lambda>parent.
        pbind (rename_nested_step ''resource_spec'') (\<lambda>u.
        pbind get_details (\<lambda>d.
        pbind (build w ''Asset'' [] (kwargs d)) (\<lambda>asset_obj.
        pbind (build w ''CreateAssetRequest'' []
                 [(''parent'', xstr parent), (''asset_id'', xstr asset_id), (''asset'', asset_obj)]) (\<lambda>request.
        pbind (rpc w ''create_asset'' request) (\<lambda>operation.
        handle_lro w operation (''asset creation for '' @ sq @ asset_id @ sq @ '' in zone '' @ sq @ zone_id @ sq)))))))))
       (\<lambda>e. if is_InvalidArgument e
              then ret (error_dict (''Invalid argument: '' @ message_of e))
            else if is_GoogleAPICallError e
              then ret (error_dict (''API Error creating asset: '' @ message_of e))
            else if is_Exception e
              then ret (error_dict (''Unexpected error creating asset: '' @ str_of e))
            else propagate e))"

definition get_dataplex_asset ::
  "world \<Rightarrow> string \<Rightarrow> string \<Rightarrow> string \<Rightarrow> string \<Rightarrow> string \<Rightarrow> (exn + pyval) \<times> st" where
  "get_dataplex_asset w project_id location lake_id zone_id asset_id =
     run [] (try_except
       (pbind (new_client w ''DataplexServiceClient'' []) (\<lambda>client.
        pbind (path_call w ''asset_path'' [project_id, location, lake_id, zone_id, asset_id]) (\<lambda>name.
        pbind (build w ''GetAssetRequest'' [] [(''name'', xstr name)]) (\<lambda>request.
        pbind (rpc w ''get_asset'' request) (\<lambda>asset.
        message_to_dict asset)))))
       (\<lambda>e. if is_NotFound e
              then ret (error_dict (''Asset not found: '' @ asset_id))
            else if is_GoogleAPICallError e
              then ret (error_dict (''API Error getting asset: '' @ message_of e))
            else if is_Exception e
              then ret (error_dict (''Unexpected error getting asset: '' @ str_of e))
            else propagate e))"

definition list_dataplex_assets ::
  "world \<Rightarrow> string \<Rightarrow> string \<Rightarrow> string \<Rightarrow> string \<Rightarrow> string \<Rightarrow> (exn + pyval) \<times> st" where
  "list_dataplex_assets w project_id location lake_id zone_id filter_str =
     run [] (try_except
       (pbind (new_client w ''DataplexServiceClient'' []) (\<lambda>client.
        pbind (path_call w ''zone_path'' [project_id, location, lake_id, zone_id]) (\<lambda>parent.
        pbind (build w ''ListAssetsRequest'' []
                 [(''parent'', xstr parent), (''filter'', xstr filter_str)]) (\<lambda>request.
        pbind (rpc w ''list_assets'' request) (\<lambda>pager.
        pbind (iterate pager) (\<lambda>assets_list.
        ret (PList assets_list)))))))
       (\<lambda>e. if is_NotFound e
              then ret (PList [error_dict (''Parent zone not found: '' @ zone_id)])
            else if is_GoogleAPICallError e
              then ret (PList [error_dict (''API Error listing assets: '' @ message_of e)])
            else if is_Exception e
              then ret (PList [error_dict (''Unexpected error listing assets: '' @ str_of e)])
            else propagate e))"

definition update_dataplex_asset ::
  "world \<Rightarrow> string \<Rightarrow> string \<Rightarrow> string \<Rightarrow> string \<Rightarrow> string \<Rightarrow> string list \<Rightarrow> pydict \<Rightarrow> (exn + pyval) \<times> st" where
  "update_dataplex_asset w project_id location lake_id zone_id asset_id update_mask
      updated_asset_details =
     run updated_asset_details (try_except
       (pbind (new_client w ''DataplexServiceClient'' []) (\<lambda>client.
        pbind (path_call w ''asset_path'' [project_id, location, lake_id, zone_id, asset_id]) (\<lambda>asset_name.
        pbind (rename_nested_step ''resource_spec'') (\<lambda>u.
        pbind get_details (\<lambda>d.
        pbind (kwargs_named asset_name d) (\<lambda>kw.
        pbind (build w ''Asset'' [] kw) (\<lambda>asset_obj.
        pbind (build w ''FieldMask'' [] [(''paths'', XVal (PList (map PStr update_mask)))]) (\<lambda>field_mask.
        pbind (build w ''UpdateAssetRequest'' []
                 [(''asset'', asset_obj), (''update_mask'', field_mask)]) (\<lambda>request.
        pbind (rpc w ''update_asset'' request) (\<lambda>operation.
        handle_lro w operation (''asset update for '' @ sq @ asset_id @ sq)))))))))))
       (\<lambda>e. if is_NotFound e
              then ret (error_dict (''Asset not found for update: '' @ asset_id))
            else if is_InvalidArgument e
              then ret (error_dict (''Invalid argument: '' @ message_of e))
            else if is_GoogleAPICallError e
              then ret (error_dict (''API Error updating asset: '' @ message_of e))
            else if is_Exception e
              then ret (error_dict (''Unexpected error updating asset: '' @ str_of e))
            else propagate e))"

definition delete_dataplex_asset ::
  "world \<Rightarrow> string \<Rightarrow> string \<Rightarrow> string \<Rightarrow> string \<Rightarrow> string \<Rightarrow> (exn + pyval) \<times> st" where
  "delete_dataplex_asset w project_id location lake_id zone_id asset_id =
     run [] (try_except
       (pbind (new_client w ''DataplexServiceClient'' []) (\<lambda>client.
        pbind (path_call w ''asset_path'' [project_id, location, lake_id, zone_id, asset_id]) (\<lambda>name.
        pbind (build w ''DeleteAssetRequest'' [] [(''name'', xstr name)]) (\<lambda>request.
        pbind (rpc w ''delete_asset'' request) (\<lambda>operation.
        handle_lro w operation (''asset deletion for '' @ sq @ asset_id @ sq))))))
       (\<lambda>e. if is_NotFound e
              then ret (error_dict (''Asset not found for deletion: '' @ asset_id))
            else if is_GoogleAPICallError e
              then ret (error_dict (''API Error deleting asset: '' @ message_of e))
            else if is_Exception e
              then ret (error_dict (''Unexpected error deleting asset: '' @ str_of e))
            else propagate e))"

subsection \<open>Task operations\<close>

definition create_dataplex_task ::
  "world \<Rightarrow> string \<Rightarrow> string \<Rightarrow> string \<Rightarrow> string \<Rightarrow> pydict \<Rightarrow> (exn + pyval) \<times> st" where
  "create_dataplex_task w project_id location lake_id task_id task_details =
     run task_details (try_except
       (pbind (new_client w ''DataplexServiceClient'' []) (\<lambda>client.
        pbind (path_call w ''lake_path'' [project_id, location, lake_id]) (\<lambda>parent.
        pbind (rename_nested_step ''trigger_spec'') (\<lambda>u.
        pbind get_details (\<lambda>d.
        pbind (build w ''Task'' [] (kwargs d)) (\<lambda>task_obj.
        pbind (build w ''CreateTaskRequest'' []
                 [(''parent'', xstr parent), (''task_id'', xstr task_id), (''task'', task_obj)]) (\<lambda>request.
        pbind (rpc w ''create_task'' request) (\<lambda>operation.
        handle_lro w operation (''task creation for '' @ sq @ task_id @ sq @ '' in lake '' @ sq @ lake_id @ sq)))))))))
       (\<lambda>e. if is_InvalidArgument e
              then ret (error_dict (''Invalid argument: '' @ message_of e))
            else if is_GoogleAPICallError e
              then ret (error_dict (''API Error creating task: '' @ message_of e))
            else if is_Exception e
              then ret (error_dict (''Unexpected error creating task: '' @ str_of e))
            else propagate e))"

definition get_dataplex_task ::
  "world \<Rightarrow> string \<Rightarrow> string \<Rightarrow> string \<Rightarrow> string \<Rightarrow> (exn + pyval) \<times> st" where
  "get_dataplex_task w project_id location lake_id task_id =
     run [] (try_except
       (pbind (new_client w ''DataplexServiceClient'' []) (\<lambda>client.
        pbind (path_call w ''task_path'' [project_id, location, lake_id, task_id]) (\<lambda>name.
        pbind (build w ''GetTaskRequest'' [] [(''name'', xstr name)]) (\<lambda>request.
        pbind (rpc w ''get_task'' request) (\<lambda>task.
        message_to_dict task)))))
       (\<lambda>e. if is_NotFound e
              then ret (error_dict (''Task not found: '' @ task_id))
            else if is_GoogleAPICallError e
              then ret (error_dict (''API Error getting task: '' @ message_of e))
            else if is_Exception e
              then ret (error_dict (''Unexpected error getting task: '' @ str_of e))
            else propagate e))"

definition list_dataplex_tasks ::
  "world \<Rightarrow> string \<Rightarrow> string \<Rightarrow> string \<Rightarrow> string \<Rightarrow> (exn + pyval) \<times> st" where
  "list_dataplex_tasks w project_id location lake_id filter_str =
     run [] (try_except
       (pbind (new_client w ''DataplexServiceClient'' []) (\<lambda>client.
        pbind (path_call w ''lake_path'' [project_id, location, lake_id]) (\<lambda>parent.
        pbind (build w ''ListTasksRequest'' []
                 [(''parent'', xstr parent), (''filter'', xstr filter_str)]) (\<lambda>request.
        pbind (rpc w ''list_tasks'' request) (\<lambda>pager.
        pbind (iterate pager) (\<lambda>tasks_list.
        ret (PList tasks_list)))))))
       (\<lambda>e. if is_NotFound e
              then ret (PList [error_dict (''Parent lake not found: '' @ lake_id)])
            else if is_GoogleAPICallError e
              then ret (PList [error_dict (''API Error listing tasks: '' @ message_of e)])
            else if is_Exception e
              then ret (PList [error_dict (''Unexpected error listing tasks: '' @ str_of e)])
            else propagate e))"

definition update_dataplex_task ::
  "world \<Rightarrow> string \<Rightarrow> string \<Rightarrow> string \<Rightarrow> string \<Rightarrow> string list \<Rightarrow> pydict \<Rightarrow> (exn + pyval) \<times> st" where
  "update_dataplex_task w project_id location lake_id task_id update_mask updated_task_details =
     run updated_task_details (try_except
       (pbind (new_client w ''DataplexServiceClient'' []) (\<lambda>client.
        pbind (path_call w ''task_path'' [project_id, location, lake_id, task_id]) (\<lambda>task_name.
        pbind (rename_nested_step ''trigger_spec'') (\<lambda>u.
        pbind get_details (\<lambda>d.
        pbind (kwargs_named task_name d) (\<lambda>kw.
        pbind (build w ''Task'' [] kw) (\<lambda>task_obj.
        pbind (build w ''FieldMask'' [] [(''paths'', XVal (PList (map PStr update_mask)))]) (\<lambda>field_mask.
        pbind (build w ''UpdateTaskRequest'' []
                 [(''task'', task_obj), (''update_mask'', field_mask)]) (\<lambda>request.
        pbind (rpc w ''update_task'' request) (\<lambda>operation.
        handle_lro w operation (''task update for '' @ sq @ task_id @ sq)))))))))))
       (\<lambda>e. if is_NotFound e
              then ret (error_dict (''Task not found for update: '' @ task_id))
            else if is_InvalidArgument e
              then ret (error_dict (''Invalid argument: '' @ message_of e))
            else if is_GoogleAPICallError e
              then ret (error_dict (''API Error updating task: '' @ message_of e))
            else if is_Exception e
              then ret (error_dict (''Unexpected error updating task: '' @ str_of e))
            else propagate e))"

definition delete_dataplex_task ::
  "world \<Rightarrow> string \<Rightarrow> string \<Rightarrow> string \<Rightarrow> string \<Rightarrow> (exn + pyval) \<times> st" where
  "delete_dataplex_task w project_id location lake_id task_id =
     run [] (try_except
       (pbind (new_client w ''DataplexServiceClient'' []) (\<lambda>client.
        pbind (path_call w ''task_path'' [project_id, location, lake_id, task_id]) (\<lambda>name.
        pbind (build w ''DeleteTaskRequest'' [] [(''name'', xstr name)]) (\<lambda>request.
        pbind (rpc w ''delete_task'' request) (\<lambda>operation.
        handle_lro w operation (''task deletion for '' @ sq @ task_id @ sq))))))
       (\<lambda>e. if is_NotFound e
              then ret (error_dict (''Task not found for deletion: '' @ task_id))
            else if is_GoogleAPICallError e
              then ret (error_dict (''API Error deleting task: '' @ message_of e))
            else if is_Exception e
              then ret (error_dict (''Unexpected error deleting task: '' @ str_of e))
            else propagate e))"

text \<open>
  \<open>run_task\<close> returns a response whose \<open>job\<close> field is the message converted; the
  world's \<open>RMsg\<close> for it is the image of that field.
\<close>

definition run_dataplex_task ::
  "world \<Rightarrow> string \<Rightarrow> string \<Rightarrow> string \<Rightarrow> string \<Rightarrow> (exn + pyval) \<times> st" where
  "run_dataplex_task w project_id location lake_id task_id =
     run [] (try_except
       (pbind (new_client w ''DataplexServiceClient'' []) (\<lambda>client.
        pbind (path_call w ''task_path'' [project_id, location, lake_id, task_id]) (\<lambda>name.
        pbind (build w ''RunTaskRequest'' [] [(''name'', xstr name)]) (\<lambda>request.
        pbind (rpc w ''run_task'' request) (\<lambda>response.
        pbind (message_to_dict response) (\<lambda>job_dict.
        ret (PDict [(''status'', PStr ''started''), (''job'', job_dict)])))))))
       (\<lambda>e. if is_NotFound e
              then ret (error_dict (''Task not found for run: '' @ task_id))
            else if is_GoogleAPICallError e
              then ret (error_dict (''API Error running task: '' @ message_of e))
            else if is_Exception e
              then ret (error_dict (''Unexpected error running task: '' @ str_of e))
            else propagate e))"

definition get_dataplex_job ::
  "world \<Rightarrow> string \<Rightarrow> string \<Rightarrow> string \<Rightarrow> string \<Rightarrow> string \<Rightarrow> (exn + pyval) \<times> st" where
  "get_dataplex_job w project_id location lake_id task_id job_id =
     run [] (try_except
       (pbind (new_client w ''DataplexServiceClient'' []) (\<lambda>client.
        pbind (path_call w ''job_path'' [project_id, location, lake_id, task_id, job_id]) (\<lambda>name.
        pbind (build w ''GetJobRequest'' [] [(''name'', xstr name)]) (\<lambda>request.
        pbind (rpc w ''get_job'' request) (\<lambda>job.
        message_to_dict job)))))
       (\<lambda>e. if is_NotFound e
              then ret (error_dict (''Job not found: '' @ job_id))
            else if is_GoogleAPICallError e
              then ret (error_dict (''API Error getting job: '' @ message_of e))
            else if is_Exception e
              then ret (error_dict (''Unexpected error getting job: '' @ str_of e))
            else propagate e))"

definition list_dataplex_jobs ::
  "world \<Rightarrow> string \<Rightarrow> string \<Rightarrow> string \<Rightarrow> string \<Rightarrow> (exn + pyval) \<times> st" where
  "list_dataplex_jobs w project_id location lake_id task_id =
     run [] (try_except
       (pbind (new_client w ''DataplexServiceClient'' []) (\<lambda>client.
        pbind (path_call w ''task_path'' [project_id, location, lake_id, task_id]) (\<lambda>parent.
        pbind (build w ''ListJobsRequest'' [] [(''parent'', xstr parent)]) (\<lambda>request.
        pbind (rpc w ''list_jobs'' request) (\<lambda>pager.
        pbind (iterate pager) (\<lambda>jobs_list.
        ret (PList jobs_list)))))))
       (\<lambda>e. if is_NotFound e
              then ret (PList [error_dict (''Parent task not found: '' @ task_id)])
            else if is_GoogleAPICallError e
              then ret (PList [error_dict (''API Error listing jobs: '' @ message_of e)])
            else if is_Exception e
              then ret (PList [error_dict (''Unexpected error listing jobs: '' @ str_of e)])
            else propagate e))"

text \<open>
  \<open>cancel_dataplex_job\<close>: inside the handler of \<open>GoogleAPICallError\<close> the source tests
  \<^verbatim>\<open>e.code == 400 and ("invalid state" in str(e).lower() or "terminal state" in str(e).lower())\<close>.
\<close>

definition already_terminal :: "exn \<Rightarrow> bool" where
  "already_terminal e =
     (code_of e = Some 400 \<and>
      (sub_in ''invalid state'' (lower (str_of e)) \<or> sub_in ''terminal state'' (lower (str_of e))))"

definition cancel_dataplex_job ::
  "world \<Rightarrow> string \<Rightarrow> string \<Rightarrow> string \<Rightarrow> string \<Rightarrow> string \<Rightarrow> (exn + pyval) \<times> st" where
  "cancel_dataplex_job w project_id location lake_id task_id job_id =
     run [] (try_except
       (pbind (new_client w ''DataplexServiceClient'' []) (\<lambda>client.
        pbind (path_call w ''job_path'' [project_id, location, lake_id, task_id, job_id]) (\<lambda>name.
        pbind (build w ''CancelJobRequest'' [] [(''name'', xstr name)]) (\<lambda>request.
        pbind (rpc w ''cancel_job'' request) (\<lambda>r.
        ret (PDict [(''status'', PStr ''cancellation_requested'')]))))))
       (\<lambda>e. if is_NotFound e
              then ret (error_dict (''Job not found for cancellation: '' @ job_id))
            else if is_GoogleAPICallError e
              then (if already_terminal e
                    then ret (error_dict (''Job '' @ job_id @ '' is already in a terminal state.''))
                    else ret (error_dict (''API Error cancelling job: '' @ message_of e)))
            else if is_Exception e
              then ret (error_dict (''Unexpected error cancelling job: '' @ str_of e))
            else propagate e))"

section \<open>catalog\_service\_tools.py\<close>

text \<open>
  A search result is given by its attributes; \<open>system\<close> and \<open>type_\<close> hold the name
  of the enum member when the conversion \<open>SearchResultSystem(result.system)\<close>,
  \<open>EntryType(result.type_)\<close> succeeds (a string), anything else makes it raise.
\<close>

definition attr_or_empty :: "string \<Rightarrow> pydict \<Rightarrow> pyval" where
  "attr_or_empty k r = (case dict_get k r of None \<Rightarrow> PStr [] | Some v \<Rightarrow> v)"

fun entry_details :: "pyval \<Rightarrow> exn + pyval" where
  "entry_details (PDict r) =
     (case (dict_get ''system'' r, dict_get ''type_'' r) of
        (Some (PStr system_str), Some (PStr type_str)) \<Rightarrow>
          Inr (PDict [(''dataplex_entry_name'', attr_or_empty ''name'' r),
                      (''display_name'', attr_or_empty ''display_name'' r),
                      (''description'', attr_or_empty ''description'' r),
                      (''linked_resource'', attr_or_empty ''linked_resource'' r),
                      (''system'', PStr system_str),
                      (''type'', PStr type_str),
                      (''relative_resource_name'', attr_or_empty ''relative_resource_name'' r)])
      | _ \<Rightarrow> Inl (PyException ''ValueError'' ''not a valid enum value''))"
| "entry_details v = Inl (PyException ''AttributeError'' ''object has no attribute system'')"

fun found_entries_of :: "pyval list \<Rightarrow> exn + pyval list" where
  "found_entries_of [] = Inr []"
| "found_entries_of (r # rs) =
     (case entry_details r of
        Inl e \<Rightarrow> Inl e
      | Inr x \<Rightarrow> (case found_entries_of rs of Inl e \<Rightarrow> Inl e | Inr xs \<Rightarrow> Inr (x # xs)))"

text \<open>
  The argument check and the construction of the client stand before the \<open>try\<close>: what
  they raise reaches the caller. Both handlers return the empty list.
\<close>

definition search_dataplex_catalog ::
  "world \<Rightarrow> string \<Rightarrow> string \<Rightarrow> string \<Rightarrow> (exn + pyval) \<times> st" where
  "search_dataplex_catalog w project_id location_id query =
     run []
       (if \<not> (project_id \<noteq> [] \<and> location_id \<noteq> [] \<and> query \<noteq> [])
        then raise (PyException ''ValueError''
                      ''project_id, location_id, and query must be provided.'')
        else
          pbind (new_client w ''MetadataServiceClient'' []) (\<lambda>client.
          try_except
            (pbind (rpc w ''search_resources''
                      (XDict [(''name'', xstr (''projects/'' @ project_id @ ''/locations/''
                                                @ location_id)),
                              (''query'', xstr query)])) (\<lambda>pager.
             pbind (iterate pager) (\<lambda>results.
             pbind (lift (found_entries_of results)) (\<lambda>found_entries.
             ret (PList found_entries)))))
            (\<lambda>e. if is_GoogleAPIError e then ret (PList [])
                 else if is_Exception e then ret (PList [])
                 else propagate e)))"

section \<open>dataproc-agent: common\_tools.py\<close>



text \<open>
  A global name is looked up in the namespace of the module when the function runs: a
  name the module never binds raises NameError. A namespace maps a bound name to the
  truth value of what it is bound to. \<open>common_tools_globals\<close> holds the names
  common\_tools.py binds at module level: its imports and its \<open>def\<close>s.
\<close>

type_synonym globals = "string \<Rightarrow> bool option"

definition load_global :: "globals \<Rightarrow> string \<Rightarrow> bool prog" where
  "load_global g n =
     (case g n of
        None \<Rightarrow> raise (PyException ''NameError'' (''name '' @ sq @ n @ sq @ '' is not defined''))
      | Some b \<Rightarrow> ret b)"

definition common_tools_names :: "string list" where
  "common_tools_names =
     [''uuid'', ''dataproc'', ''NotFound'', ''GoogleAPICallError'', ''Duration'',
      ''Optional'', ''List'', ''Dict'', ''MessageToDict'',
      ''initialize_clients'', ''_parse_cluster_response'', ''_parse_job_response'',
      ''submit_dataproc_job'', ''get_current_time'', ''get_lichess_rating'']"

definition common_tools_globals :: globals where
  "common_tools_globals = map_of (map (\<lambda>n. (n, True)) common_tools_names)"

definition supported_job_fields :: "string list" where
  "supported_job_fields =
     [''hadoop_job'', ''spark_job'', ''pyspark_job'', ''hive_job'', ''pig_job'',
      ''spark_r_job'', ''spark_sql_job'', ''presto_job'', ''trino_job'']"

text \<open>\<open>s.replace(p, '')\<close> for a pattern that is not empty.\<close>

function remove_sub :: "string \<Rightarrow> string \<Rightarrow> string" where
  "remove_sub p [] = []"
| "remove_sub p (c # t) =
     (if p \<noteq> [] \<and> starts_with p (c # t)
      then remove_sub p (drop (length p) (c # t))
      else c # remove_sub p t)"
  by pat_completeness auto
termination
  by (relation \<open>measure (\<lambda>(p, t). length t)\<close>) (auto simp: neq_Nil_conv)

fun type_repr :: "pyval \<Rightarrow> string" where
  "type_repr PNone = ''<class '' @ sq @ ''NoneType'' @ sq @ ''>''"
| "type_repr (PBool b) = ''<class '' @ sq @ ''bool'' @ sq @ ''>''"
| "type_repr (PInt i) = ''<class '' @ sq @ ''int'' @ sq @ ''>''"
| "type_repr (PStr s) = ''<class '' @ sq @ ''str'' @ sq @ ''>''"
| "type_repr (PList xs) = ''<class '' @ sq @ ''list'' @ sq @ ''>''"
| "type_repr (PDict d) = ''<class '' @ sq @ ''dict'' @ sq @ ''>''"

text \<open>The validation of \<open>job_details\<close>, once it is known to be a dictionary.\<close>

definition job_details_error :: "string \<Rightarrow> string \<Rightarrow> pydict \<Rightarrow> string option" where
  "job_details_error job_type job_type_field jd =
     (if job_type_field = ''pyspark_job'' \<and> \<not> dict_has ''main_python_file_uri'' jd
      then Some ''Missing required key 'main_python_file_uri' in job_details for pyspark job.''
      else if job_type_field = ''spark_job''
              \<and> \<not> (dict_has ''main_class'' jd \<or> dict_has ''main_jar_file_uri'' jd)
      then Some (''Missing required key 'main_class' or 'main_jar_file_uri' ''
                 @ ''in job_details for spark job.'')
      else if job_type_field \<in> set [''hive_job'', ''pig_job'', ''spark_sql_job'']
              \<and> \<not> (dict_has ''query_file_uri'' jd
                     \<or> (case dict_get ''query_list'' jd of None \<Rightarrow> False | Some v \<Rightarrow> truthy v))
      then Some (''Missing required key 'query_file_uri' or non-empty 'query_list' ''
                 @ ''in job_details for '' @ job_type @ '' job.'')
      else None)"

definition submitted_job_info :: "string \<Rightarrow> resp \<Rightarrow> pyval prog" where
  "submitted_job_info job_type submitted_job =
     (case submitted_job of
        RJob jid state cluster tcase \<Rightarrow>
          ret (PDict [(''message'', PStr (capitalize job_type @ '' job '' @ sq @ jid @ sq
                                          @ '' submitted successfully.'')),
                      (''job_id'', PStr jid),
                      (''status'', PStr state),
                      (''cluster_name'', PStr cluster),
                      (''submitted_job_type'', PStr tcase)])
      | _ \<Rightarrow> raise (PyException ''AttributeError'' ''object has no attribute reference''))"

text \<open>
  \<open>submit_dataproc_job\<close>, with the namespace \<open>g\<close> its global names are looked up in.
  The \<open>except\<close> clauses are evaluated in order when an exception arrives, so the name
  \<open>InvalidArgument\<close> is looked up before any class test.
\<close>

definition submit_dataproc_job ::
  "globals \<Rightarrow> world \<Rightarrow> string \<Rightarrow> string \<Rightarrow> string \<Rightarrow> string \<Rightarrow> pyval \<Rightarrow> string \<Rightarrow> pyval
     \<Rightarrow> (exn + pyval) \<times> st" where
  "submit_dataproc_job g w project_id region cluster_name job_type job_details job_id_prefix
      labels =
     run []
       (pbind (load_global g ''job_client'') (\<lambda>job_client.
        if \<not> job_client then ret (error_dict ''Dataproc job client not initialized.'')
        else
          pbind (load_global g ''uuid'') (\<lambda>u.
          pbind (ext Uuid4 (\<lambda>tr. Inr (uuid4 w tr))) (\<lambda>uuid_str.
          let job_uuid = take 8 uuid_str;
              job_type_cleaned = replace_char CHR ''-'' CHR ''_'' (lower job_type);
              job_id = job_id_prefix @ ''-'' @ job_type_cleaned @ ''-'' @ job_uuid;
              job_payload =
                [(''placement'', PDict [(''cluster_name'', PStr cluster_name)]),
                 (''reference'', PDict [(''job_id'', PStr job_id)])]
                @ (if truthy labels then [(''labels'', labels)] else []);
              job_type_field = job_type_cleaned @ ''_job''
          in
          if job_type_field \<notin> set supported_job_fields
          then ret (error_dict
                 (''Unsupported job_type: '' @ sq @ job_type @ sq @ ''. ''
                  @ ''Cleaned type '' @ sq @ job_type_field @ sq @ '' is invalid. ''
                  @ ''Supported types derive from: ''
                  @ join '', '' (map (remove_sub ''_job'') supported_job_fields) @ ''.''))
          else
            (case job_details of
               PDict jd \<Rightarrow>
                 (case job_details_error job_type job_type_field jd of
                    Some msg \<Rightarrow> ret (error_dict msg)
                  | None \<Rightarrow>
                      try_except
                        (pbind (load_global g ''dataproc'') (\<lambda>m.
                         pbind (build w ''SubmitJobRequest'' []
                                  [(''project_id'', xstr project_id), (''region'', xstr region),
                                   (''job'', XVal (PDict (dict_set job_type_field job_details
                                                             job_payload)))]) (\<lambda>request.
                         pbind (rpc w ''submit_job'' request) (\<lambda>submitted_job.
                         submitted_job_info job_type submitted_job))))
                        (\<lambda>e. pbind (load_global g ''InvalidArgument'') (\<lambda>c1.
                           if is_InvalidArgument e
                           then ret (error_dict
                                  (''InvalidArgument submitting job: '' @ message_of e
                                   @ ''. Review the structure of 'job_details' for ''
                                   @ sq @ job_type @ sq @ ''.''))
                           else pbind (load_global g ''GoogleAPICallError'') (\<lambda>c2.
                             if is_GoogleAPICallError e
                             then ret (error_dict
                                    (''API Error submitting job: '' @ message_of e))
                             else if is_Exception e
                             then ret (error_dict
                                    (''Unexpected error submitting job: '' @ str_of e))
                             else propagate e))))
             | _ \<Rightarrow> ret (error_dict (''job_details must be a dictionary, got ''
                                      @ type_repr job_details @ ''.'')))))))"

section \<open>cluster\_controller\_tools.py\<close>




text \<open>
  The items a pager yields, and the exception that ends its iteration. The outer loop of
  \<open>list_dataproc_clusters_async\<close> runs its body for each item before the end of the
  pager is reached.
\<close>

definition pager_items :: "resp \<Rightarrow> pyval list prog" where
  "pager_items r =
     (case r of
        RPager items ending \<Rightarrow> ret items
      | _ \<Rightarrow> raise (PyException ''TypeError'' ''object is not iterable''))"

definition pager_end :: "resp \<Rightarrow> unit prog" where
  "pager_end r = (case r of RPager items (Some e) \<Rightarrow> raise e | _ \<Rightarrow> ret ())"

text \<open>
  The body of the outer \<open>async for\<close>: for every cluster the outer pager yields, the
  list request is sent again and every cluster of the answer is appended.
\<close>

fun clusters_loop :: "world \<Rightarrow> xval \<Rightarrow> pyval list \<Rightarrow> pyval list \<Rightarrow> pyval list prog" where
  "clusters_loop w request [] clusters_list = ret clusters_list"
| "clusters_loop w request (cluster # rest) clusters_list =
     pbind (rpc w ''list_clusters'' request) (\<lambda>cluster_iterator.
     pbind (iterate cluster_iterator) (\<lambda>inner.
     clusters_loop w request rest (clusters_list @ inner)))"





section \<open>Properties\<close>

text \<open>A key \<open>type\<close> at any depth of a value.\<close>

fun has_type_key :: "pyval \<Rightarrow> bool"
  and has_type_key_entries :: "(string \<times> pyval) list \<Rightarrow> bool"
  and has_type_key_list :: "pyval list \<Rightarrow> bool" where
  "has_type_key (PDict d) = has_type_key_entries d"
| "has_type_key (PList xs) = has_type_key_list xs"
| "has_type_key v = False"
| "has_type_key_entries [] = False"
| "has_type_key_entries ((k, v) # d) =
     (k = ''type'' \<or> has_type_key v \<or> has_type_key_entries d)"
| "has_type_key_list [] = False"
| "has_type_key_list (x # xs) = (has_type_key x \<or> has_type_key_list xs)"

text \<open>No exception was raised during the run, by the library or by the interpreter.\<close>

definition clean :: "st \<Rightarrow> bool" where
  "clean s = (\<not> list_ex is_raised (calls s))"

text \<open>No request went to the remote service.\<close>

definition no_network :: "st \<Rightarrow> bool" where
  "no_network s = (\<not> list_ex is_network (calls s))"




text \<open>
  A program that keeps the log honest: it only appends to the log; when it returns
  normally it has logged no exception; when it ends in an exception, that exception is
  the last event it logged and the only exception it logged.
\<close>

definition sound :: "'a prog \<Rightarrow> bool" where
  "sound m =
     (\<forall>s. \<exists>new. calls (snd (m s)) = calls s @ new \<and>
        (case fst (m s) of
           Inr x \<Rightarrow> \<not> list_ex is_raised new
         | Inl e \<Rightarrow> (\<exists>pre. new = pre @ [Raised e] \<and> \<not> list_ex is_raised pre)))"

text \<open>A handler that only chooses what to return, leaving the state as it is.\<close>

definition pure_handler :: "(exn \<Rightarrow> 'a prog) \<Rightarrow> bool" where
  "pure_handler h = (\<forall>e s. h e s = (fst (h e \<lparr>calls = [], details = []\<rparr>), s))"

text \<open>A program all of whose normal results satisfy \<open>P\<close>.\<close>

definition returns :: "('a \<Rightarrow> bool) \<Rightarrow> 'a prog \<Rightarrow> bool" where
  "returns P m = (\<forall>s. case fst (m s) of Inr v \<Rightarrow> P v | Inl e \<Rightarrow> True)"


subsection \<open>A concrete world\<close>

text \<open>
  The resource names the client library's path helpers format
  (\<open>common_location_path\<close>, \<open>lake_path\<close>, \<open>zone_path\<close>, \<open>task_path\<close>,
  \<open>asset_path\<close>, \<open>job_path\<close>), and a world in which every library call succeeds, the
  path helpers are these, and every remote method answers \<open>r\<close>.
\<close>

fun std_path :: "string \<Rightarrow> string list \<Rightarrow> string" where
  "std_path h [p, l] = ''projects/'' @ p @ ''/locations/'' @ l"
| "std_path h [p, l, k] = ''projects/'' @ p @ ''/locations/'' @ l @ ''/lakes/'' @ k"
| "std_path h [p, l, k, x] =
     ''projects/'' @ p @ ''/locations/'' @ l @ ''/lakes/'' @ k
       @ (if h = ''zone_path'' then ''/zones/'' else ''/tasks/'') @ x"
| "std_path h [p, l, k, x, y] =
     ''projects/'' @ p @ ''/locations/'' @ l @ ''/lakes/'' @ k
       @ (if h = ''asset_path'' then ''/zones/'' @ x @ ''/assets/'' @ y
          else ''/tasks/'' @ x @ ''/jobs/'' @ y)"
| "std_path h ps = []"

definition world_with :: "(exn + resp) \<Rightarrow> world" where
  "world_with r =
     \<lparr>client_new = (\<lambda>tr cls kw. None),
      path_of = (\<lambda>tr h ps. Inr (std_path h ps)),
      build_msg = (\<lambda>tr cls args kw. None),
      remote = (\<lambda>tr m x. r),
      op_exception = (\<lambda>tr operation. Inr None),
      uuid4 = (\<lambda>tr. ''1b4e28ba-2fa1-11d2-883f-0016d3cca427'')\<rparr>"

text \<open>
  The library calls before the remote call succeed, whatever came before;
  \<open>path_name\<close> is the resource name the path helper then returns.
\<close>

definition library_ok :: "world \<Rightarrow> bool" where
  "library_ok w =
     ((\<forall>tr cls kw. client_new w tr cls kw = None)
      \<and> (\<forall>tr h ps e. path_of w tr h ps \<noteq> Inl e)
      \<and> (\<forall>tr cls args kw. build_msg w tr cls args kw = None))"

definition path_name :: "world \<Rightarrow> event list \<Rightarrow> string \<Rightarrow> string list \<Rightarrow> string" where
  "path_name w tr h ps = (case path_of w tr h ps of Inr n \<Rightarrow> n | Inl e \<Rightarrow> [])"

section \<open>Reasoning about programs\<close>

named_theorems sound_intros
named_theorems keeps_intros

lemma sound_ret [sound_intros]: "sound (ret x)"
  by (simp add: sound_def ret_def)

lemma sound_raise [sound_intros]: "sound (raise e)"
  by (simp add: sound_def raise_def)

lemma sound_ext: "\<not> is_raised ev \<Longrightarrow> sound (ext ev f)"
  by (simp add: sound_def ext_def split: sum.split)

lemma sound_get_details [sound_intros]: "sound get_details"
  by (simp add: sound_def get_details_def)

lemma sound_put_details [sound_intros]: "sound (put_details d)"
  by (simp add: sound_def put_details_def)

lemma sound_pbind [sound_intros]:
  assumes m: "sound m" and f: "\<And>x. sound (f x)"
  shows "sound (pbind m f)"
  unfolding sound_def
proof
  fix s
  obtain r s1 where ms: "m s = (r, s1)"
    by (cases "m s")
  from m obtain new1 where n1: "calls (snd (m s)) = calls s @ new1"
    and c1: "case fst (m s) of Inr x \<Rightarrow> \<not> list_ex is_raised new1
             | Inl e \<Rightarrow> (\<exists>pre. new1 = pre @ [Raised e] \<and> \<not> list_ex is_raised pre)"
    unfolding sound_def by blast
  show "\<exists>new. calls (snd (pbind m f s)) = calls s @ new \<and>
          (case fst (pbind m f s) of Inr x \<Rightarrow> \<not> list_ex is_raised new
           | Inl e \<Rightarrow> (\<exists>pre. new = pre @ [Raised e] \<and> \<not> list_ex is_raised pre))"
  proof (cases r)
    case (Inl e)
    with ms n1 c1 show ?thesis
      by (simp add: pbind_def)
  next
    case (Inr x)
    from f [of x] obtain new2 where n2: "calls (snd (f x s1)) = calls s1 @ new2"
      and c2: "case fst (f x s1) of Inr y \<Rightarrow> \<not> list_ex is_raised new2
               | Inl e \<Rightarrow> (\<exists>pre. new2 = pre @ [Raised e] \<and> \<not> list_ex is_raised pre)"
      unfolding sound_def by blast
    from ms Inr have p: "pbind m f s = f x s1"
      by (simp add: pbind_def)
    from ms Inr n1 c1 have a: "calls s1 = calls s @ new1" and b: "\<not> list_ex is_raised new1"
      by simp_all
    show ?thesis
    proof (cases "fst (f x s1)")
      case (Inl e)
      with c2 obtain pre where "new2 = pre @ [Raised e]" and "\<not> list_ex is_raised pre"
        by auto
      with a b n2 p Inl show ?thesis
        by (intro exI [of _ "new1 @ new2"]) (simp add: exI [of _ "new1 @ pre"])
    next
      case (Inr y)
      with a b n2 c2 p show ?thesis
        by (intro exI [of _ "new1 @ new2"]) simp
    qed
  qed
qed

lemma sound_if [sound_intros]: "sound a \<Longrightarrow> sound b \<Longrightarrow> sound (if c then a else b)"
  by simp

lemma sound_let [sound_intros]: "sound (f x) \<Longrightarrow> sound (let y = x in f y)"
  by simp

lemma sound_lift [sound_intros]: "sound (lift r)"
  by (cases r) (simp_all add: lift_def sound_intros)

lemma sound_new_client [sound_intros]: "sound (new_client w cls kw)"
  by (simp add: new_client_def sound_ext)

lemma sound_path_call [sound_intros]: "sound (path_call w h ps)"
  by (simp add: path_call_def sound_ext)

lemma sound_build [sound_intros]: "sound (build w cls args kw)"
  by (simp add: build_def sound_ext)

lemma sound_rpc [sound_intros]: "sound (rpc w m x)"
  by (simp add: rpc_def sound_ext)

lemma sound_message_to_dict [sound_intros]: "sound (message_to_dict r)"
  by (simp add: message_to_dict_def sound_intros split: resp.split)

lemma sound_iterate [sound_intros]: "sound (iterate r)"
  by (simp add: iterate_def sound_intros split: resp.split option.split)

lemma sound_pager_items [sound_intros]: "sound (pager_items r)"
  by (simp add: pager_items_def sound_intros split: resp.split)

lemma sound_pager_end [sound_intros]: "sound (pager_end r)"
  by (simp add: pager_end_def sound_intros split: resp.split option.split)

lemma sound_op_exc [sound_intros]: "sound (op_exc w r)"
  by (simp add: op_exc_def sound_intros sound_ext split: resp.split)

lemma sound_op_name [sound_intros]: "sound (op_name r)"
  by (simp add: op_name_def sound_intros split: resp.split)

lemma sound_op_metadata [sound_intros]: "sound (op_metadata r)"
  by (simp add: op_metadata_def sound_intros split: resp.split)

lemma sound_kwargs_named [sound_intros]: "sound (kwargs_named n d)"
  by (simp add: kwargs_named_def sound_intros)

lemma sound_handle_lro [sound_intros]: "sound (handle_lro w r d)"
  unfolding handle_lro_def by (intro sound_intros)

lemma sound_rename_top_step [sound_intros]: "sound rename_top_step"
  unfolding rename_top_step_def by (intro sound_intros)

lemma sound_rename_nested_step [sound_intros]: "sound (rename_nested_step k)"
  unfolding rename_nested_step_def by (intro sound_intros)

lemma sound_clusters_loop [sound_intros]: "sound (clusters_loop w request items acc)"
  by (induction items arbitrary: acc) (auto intro!: sound_intros)

text \<open>
  A tool function is \<open>run d (try_except body handler)\<close>. With a sound body and a pure
  handler, started where nothing was raised yet, the call either ran its body to the
  end, raising nothing, or the body raised one exception, logged last, and the handler
  chose the result from it.
\<close>

lemma try_cases [consumes 3, case_names normal caught]:
  assumes m: "sound m" and h: "pure_handler h" and s: "clean s"
  obtains (normal) x s' where "try_except m h s = (Inr x, s')"
      and "m s = (Inr x, s')" and "clean s'"
    | (caught) e s' pre where "try_except m h s = (fst (h e \<lparr>calls = [], details = []\<rparr>), s')"
      and "m s = (Inl e, s')"
      and "calls s' = pre @ [Raised e]" and "\<not> list_ex is_raised pre"
proof -
  obtain r s' where ms: "m s = (r, s')"
    by (cases "m s")
  from m obtain new where n: "calls (snd (m s)) = calls s @ new"
    and c: "case fst (m s) of Inr x \<Rightarrow> \<not> list_ex is_raised new
            | Inl e \<Rightarrow> (\<exists>pre. new = pre @ [Raised e] \<and> \<not> list_ex is_raised pre)"
    unfolding sound_def by blast
  show thesis
  proof (cases r)
    case (Inr x)
    with ms n c s have "clean s'"
      by (simp add: clean_def)
    moreover from ms Inr have "try_except m h s = (Inr x, s')"
      by (simp add: try_except_def)
    ultimately show thesis
      using ms Inr by (intro normal [of x s']) simp_all
  next
    case (Inl e)
    with ms n c obtain pre where p: "calls s' = calls s @ pre @ [Raised e]"
      and q: "\<not> list_ex is_raised pre"
      by auto
    from h have "h e s' = (fst (h e \<lparr>calls = [], details = []\<rparr>), s')"
      unfolding pure_handler_def by blast
    with ms Inl have "try_except m h s = (fst (h e \<lparr>calls = [], details = []\<rparr>), s')"
      by (simp add: try_except_def)
    moreover from q s have "\<not> list_ex is_raised (calls s @ pre)"
      by (simp add: clean_def)
    ultimately show thesis
      using ms Inl p by (intro caught [of e s' "calls s @ pre"]) simp_all
  qed
qed

lemma clean_start: "clean \<lparr>calls = [], details = d\<rparr>"
  by (simp add: clean_def)



text \<open>An exception found in the log of a call is the one its handler answered.\<close>

lemma raised_in_log:
  assumes m: "sound m" and h: "pure_handler h"
    and r: "Raised e \<in> set (calls (snd (run d (try_except m h))))"
  shows "fst (run d (try_except m h)) = fst (h e \<lparr>calls = [], details = []\<rparr>)"
  using m h clean_start [of d]
proof (cases rule: try_cases)
  case (normal x s')
  with r have False
    by (auto simp: clean_def list_ex_iff run_def)
  then show ?thesis ..
next
  case (caught e' s' pre)
  with r have "Raised e \<in> set pre \<or> e = e'"
    by (auto simp: run_def)
  moreover from caught(4) have "Raised e \<notin> set pre"
    by (auto simp: list_ex_iff)
  ultimately show ?thesis
    using caught(1) by (simp add: run_def)
qed

text \<open>A call whose log holds no exception ran its body to the end.\<close>

lemma clean_run:
  assumes m: "sound m" and h: "pure_handler h"
    and c: "clean (snd (run d (try_except m h)))"
  shows "run d (try_except m h) = m \<lparr>calls = [], details = d\<rparr>
         \<and> (\<exists>x. fst (m \<lparr>calls = [], details = d\<rparr>) = Inr x)"
  using m h clean_start [of d]
proof (cases rule: try_cases)
  case (normal x s')
  then show ?thesis
    by (simp add: run_def)
next
  case (caught e s' pre)
  with c have False
    by (simp add: run_def clean_def)
  then show ?thesis ..
qed

subsection \<open>Evaluating a call\<close>

lemmas prog_simps = run_def try_except_def pbind_def ret_def raise_def propagate_def ext_def
  lift_def get_details_def put_details_def new_client_def path_call_def build_def rpc_def
  xstr_def kwargs_def kwargs_named_def error_dict_def message_to_dict_def iterate_def
  op_exc_def op_name_def op_metadata_def str_opt_def handle_lro_def
  rename_top_step_def rename_nested_step_def

lemmas dict_simps = dict_has_def dict_get_def dict_set_def dict_del_def

subsection \<open>Dictionaries\<close>

lemma dict_has_get: "dict_has k d \<longleftrightarrow> dict_get k d \<noteq> None"
  by (simp add: dict_has_def dict_get_def map_of_eq_None_iff)

lemma dict_get_set: "dict_get k (dict_set k' v d) = (if k = k' then Some v else dict_get k d)"
  by (simp add: dict_get_def dict_set_def update_conv')

lemma dict_get_del: "dict_get k (dict_del k' d) = (if k = k' then None else dict_get k d)"
  by (simp add: dict_get_def dict_del_def delete_conv')

lemma dict_get_rename_type: "dict_get ''type'' (rename_type d) = None"
  by (simp add: rename_type_def dict_get_set dict_get_del split: option.splits)

lemma rename_type_absent: "\<not> dict_has ''type'' d \<Longrightarrow> rename_type d = d"
  by (simp add: rename_type_def dict_has_get)

lemma rename_type_twice: "rename_type (rename_type d) = rename_type d"
  by (rule rename_type_absent) (simp add: dict_has_get dict_get_rename_type)

lemma rename_type_in_absent: "\<not> dict_has k d \<Longrightarrow> rename_type_in k d = Inr d"
  by (simp add: rename_type_in_def dict_has_get)

lemma rename_type_in_dict:
  "dict_get k d = Some (PDict sub) \<Longrightarrow>
   rename_type_in k d = Inr (if dict_has ''type'' sub then dict_set k (PDict (rename_type sub)) d
                             else d)"
  by (auto simp: rename_type_in_def rename_type_def dict_has_get split: option.splits)

lemma rename_type_in_twice:
  assumes "rename_type_in k d = Inr d'"
  shows "rename_type_in k d' = Inr d'"
proof (cases "dict_get k d")
  case None
  with assms show ?thesis
    by (simp add: rename_type_in_def)
next
  case (Some v)
  show ?thesis
  proof (cases v)
    case (PDict sub)
    with Some assms have d': "d' = (if dict_has ''type'' sub
                                     then dict_set k (PDict (rename_type sub)) d else d)"
      by (simp add: rename_type_in_dict)
    show ?thesis
    proof (cases "dict_has ''type'' sub")
      case True
      with d' have "dict_get k d' = Some (PDict (rename_type sub))"
        by (simp add: dict_get_set)
      then have "rename_type_in k d' = Inr d'"
        by (simp add: rename_type_in_dict dict_has_get dict_get_rename_type)
      then show ?thesis .
    next
      case False
      with d' assms show ?thesis
        by simp
    qed
  qed (use assms Some in \<open>auto simp: rename_type_in_def split: if_splits bool.splits\<close>)
qed

subsection \<open>The error policy, function by function\<close>

































subsection \<open>Running in a world whose library calls succeed\<close>

lemma lib_new_client:
  "library_ok w \<Longrightarrow>
   new_client w cls kw s = (Inr (), s\<lparr>calls := calls s @ [NewClient cls kw]\<rparr>)"
  by (simp add: library_ok_def new_client_def ext_def)

lemma lib_build:
  "library_ok w \<Longrightarrow>
   build w cls args kw s = (Inr (XMsg cls args kw), s\<lparr>calls := calls s @ [Build cls args kw]\<rparr>)"
  by (simp add: library_ok_def build_def ext_def)

lemma lib_path_call:
  "library_ok w \<Longrightarrow>
   path_call w h ps s
     = (Inr (path_name w (calls s) h ps), s\<lparr>calls := calls s @ [PathCall h ps]\<rparr>)"
  by (simp add: library_ok_def path_call_def path_name_def ext_def split: sum.split)

lemmas lib_simps = lib_new_client lib_build lib_path_call

lemma library_ok_world_with: "library_ok (world_with r)"
  by (simp add: library_ok_def world_with_def)


lemmas handler_simps2 = pure_handler_def ret_def propagate_def

lemma snd_try_pure: "pure_handler h \<Longrightarrow> snd (try_except m h s) = snd (m s)"
proof -
  assume h: "pure_handler h"
  obtain r s' where ms: "m s = (r, s')"
    by (cases "m s")
  show ?thesis
  proof (cases r)
    case (Inl e)
    from h have "h e s' = (fst (h e \<lparr>calls = [], details = []\<rparr>), s')"
      unfolding pure_handler_def by blast
    with ms Inl show ?thesis
      by (simp add: try_except_def)
  next
    case (Inr x)
    with ms show ?thesis
      by (simp add: try_except_def)
  qed
qed

lemma sound_grows: "sound m \<Longrightarrow> ev \<in> set (calls s) \<Longrightarrow> ev \<in> set (calls (snd (m s)))"
  unfolding sound_def by (metis Un_iff set_append)

lemma pbind_Inr: "m s = (Inr x, s') \<Longrightarrow> pbind m f s = f x s'"
  by (simp add: pbind_def)

lemma pbind_get_details: "pbind get_details f s = f (details s) s"
  by (simp add: pbind_def get_details_def)

lemma pbind_rename_top_step:
  "pbind rename_top_step f s = f () (s\<lparr>details := rename_type (details s)\<rparr>)"
  by (simp add: pbind_def rename_top_step_def get_details_def put_details_def)

lemma pbind_rename_nested_step:
  "pbind (rename_nested_step k) f s
     = (case rename_type_in k (details s) of
          Inl e \<Rightarrow> (Inl e, s\<lparr>calls := calls s @ [Raised e]\<rparr>)
        | Inr d' \<Rightarrow> f () (s\<lparr>details := d'\<rparr>))"
  by (simp add: pbind_def rename_nested_step_def get_details_def put_details_def lift_def
      ret_def raise_def split: sum.split)

lemma lib_pbind_new_client:
  "library_ok w \<Longrightarrow>
   pbind (new_client w cls kw) f s = f () (s\<lparr>calls := calls s @ [NewClient cls kw]\<rparr>)"
  by (simp add: pbind_def lib_new_client)

lemma lib_pbind_path_call:
  "library_ok w \<Longrightarrow>
   pbind (path_call w h ps) f s
     = f (path_name w (calls s) h ps) (s\<lparr>calls := calls s @ [PathCall h ps]\<rparr>)"
  by (simp add: pbind_def lib_path_call)

lemma lib_pbind_build:
  "library_ok w \<Longrightarrow>
   pbind (build w cls args kw) f s
     = f (XMsg cls args kw) (s\<lparr>calls := calls s @ [Build cls args kw]\<rparr>)"
  by (simp add: pbind_def lib_build)

lemmas lib_pbind = lib_pbind_new_client lib_pbind_path_call lib_pbind_build pbind_get_details
  pbind_rename_top_step

text \<open>Once the remote method is invoked, the request stays in the log.\<close>

lemma rpc_logged: "Rpc m x \<in> set (calls (snd (rpc w m x s)))"
  by (simp add: rpc_def ext_def split: sum.split)

lemma rpc_sent:
  assumes "\<And>r. sound (f r)"
  shows "Rpc m x \<in> set (calls (snd (pbind (rpc w m x) f s)))"
proof -
  obtain r s' where rs: "rpc w m x s = (r, s')"
    by (cases "rpc w m x s")
  with rpc_logged [of m x w s] have l: "Rpc m x \<in> set (calls s')"
    by simp
  show ?thesis
  proof (cases r)
    case (Inl e)
    with rs l show ?thesis
      by (simp add: pbind_def)
  next
    case (Inr y)
    with rs have "pbind (rpc w m x) f s = f y s'"
      by (simp add: pbind_def)
    with sound_grows [OF assms [of y] l] show ?thesis
      by simp
  qed
qed

lemma network_in_log: "Rpc m x \<in> set (calls s) \<Longrightarrow> \<not> no_network s"
  unfolding no_network_def list_ex_iff by (simp, rule bexI [of _ "Rpc m x"]) simp_all


subsection \<open>Substrings\<close>

lemma starts_with_iff: "starts_with s t \<longleftrightarrow> (\<exists>q. t = s @ q)"
  by (induction s t rule: starts_with.induct) auto

lemma sub_in_iff: "sub_in s t \<longleftrightarrow> (\<exists>p q. t = p @ s @ q)"
proof (induction t)
  case Nil
  then show ?case
    by simp
next
  case (Cons c t)
  show ?case
  proof
    assume "sub_in s (c # t)"
    then consider "starts_with s (c # t)" | "sub_in s t"
      by auto
    then show "\<exists>p q. c # t = p @ s @ q"
    proof cases
      case 1
      then obtain q where "c # t = s @ q"
        by (auto simp: starts_with_iff)
      then have "c # t = [] @ s @ q"
        by simp
      then show ?thesis
        by blast
    next
      case 2
      with Cons obtain p q where "t = p @ s @ q"
        by blast
      then have "c # t = (c # p) @ s @ q"
        by simp
      then show ?thesis
        by blast
    qed
  next
    assume "\<exists>p q. c # t = p @ s @ q"
    then obtain p q where e: "c # t = p @ s @ q"
      by blast
    show "sub_in s (c # t)"
    proof (cases p)
      case Nil
      with e have "starts_with s (c # t)"
        unfolding starts_with_iff by auto
      then show ?thesis
        by simp
    next
      case (Cons a p')
      with e have "t = p' @ s @ q"
        by simp
      with Cons.IH have "sub_in s t"
        by blast
      then show ?thesis
        by simp
    qed
  qed
qed

lemma sub_in_between: "sub_in s m \<Longrightarrow> sub_in s (p @ m @ q)"
proof -
  assume "sub_in s m"
  then obtain a b where "m = a @ s @ b"
    by (auto simp: sub_in_iff)
  then have "p @ m @ q = (p @ a) @ s @ (b @ q)"
    by simp
  then show ?thesis
    unfolding sub_in_iff by blast
qed

lemma sub_in_lower_str_of:
  assumes "is_GoogleAPICallError e" and "sub_in s (lower (message_of e))"
  shows "sub_in s (lower (str_of e))"
  using assms by (cases e) (simp_all add: api_str_def lower_def sub_in_between)

lemma code_400_not_found: "code_of e = Some 400 \<Longrightarrow> \<not> is_NotFound e"
  by (cases e) simp_all

subsection \<open>The nested loop of the cluster listing\<close>


subsection \<open>What a call leaves in the log and in the caller's dictionary\<close>

lemma handle_lro_builds:
  "Build c a k \<in> set (calls (snd (handle_lro w operation desc s)))
     \<longleftrightarrow> Build c a k \<in> set (calls s)"
  by (cases operation)
     (simp_all add: handle_lro_def pbind_def op_exc_def op_name_def op_metadata_def ext_def
        raise_def ret_def split: sum.split option.split)

lemma handle_lro_details: "details (snd (handle_lro w operation desc s)) = details s"
  by (cases operation)
     (simp_all add: handle_lro_def pbind_def op_exc_def op_name_def op_metadata_def ext_def
        raise_def ret_def split: sum.split option.split)

lemmas step_simps = pbind_def new_client_def path_call_def build_def rpc_def ext_def
  rename_top_step_def rename_nested_step_def get_details_def put_details_def lift_def
  kwargs_named_def raise_def ret_def handle_lro_builds handle_lro_details

lemma builds_create_dataplex_lake:
  "Build ''Lake'' args kw \<in> set (calls (snd (create_dataplex_lake w p l k d)))
     \<Longrightarrow> args = [XVal (PDict d)] \<and> kw = []"
  unfolding create_dataplex_lake_def run_def
  by (subst (asm) snd_try_pure, simp add: handler_simps2)
     (auto simp add: step_simps split: sum.splits option.splits if_splits)

lemma builds_update_dataplex_lake:
  "Build ''Lake'' args kw \<in> set (calls (snd (update_dataplex_lake w p l k um d)))
     \<Longrightarrow> args = [] \<and> (\<exists>n. kw = (''name'', xstr n) # kwargs d)"
  unfolding update_dataplex_lake_def run_def
  by (subst (asm) snd_try_pure, simp add: handler_simps2)
     (auto simp add: step_simps split: sum.splits option.splits if_splits)

lemma builds_create_dataplex_zone:
  "Build ''Zone'' args kw \<in> set (calls (snd (create_dataplex_zone w p l k z d)))
     \<Longrightarrow> args = [] \<and> kw = kwargs (rename_type d)"
  unfolding create_dataplex_zone_def run_def
  by (subst (asm) snd_try_pure, simp add: handler_simps2)
     (auto simp add: step_simps split: sum.splits option.splits if_splits)

lemma builds_update_dataplex_zone:
  "Build ''Zone'' args kw \<in> set (calls (snd (update_dataplex_zone w p l k z um d)))
     \<Longrightarrow> args = [] \<and> (\<exists>n. kw = (''name'', xstr n) # kwargs (rename_type d))"
  unfolding update_dataplex_zone_def run_def
  by (subst (asm) snd_try_pure, simp add: handler_simps2)
     (auto simp add: step_simps split: sum.splits option.splits if_splits)

lemma builds_create_dataplex_asset:
  "Build ''Asset'' args kw \<in> set (calls (snd (create_dataplex_asset w p l k z a d)))
     \<Longrightarrow> args = [] \<and> (\<exists>d'. rename_type_in ''resource_spec'' d = Inr d' \<and> kw = kwargs d')"
  unfolding create_dataplex_asset_def run_def
  by (subst (asm) snd_try_pure, simp add: handler_simps2)
     (auto simp add: step_simps split: sum.splits option.splits if_splits)

lemma builds_update_dataplex_asset:
  "Build ''Asset'' args kw \<in> set (calls (snd (update_dataplex_asset w p l k z a um d)))
     \<Longrightarrow> args = [] \<and> (\<exists>d' n. rename_type_in ''resource_spec'' d = Inr d'
                                \<and> kw = (''name'', xstr n) # kwargs d')"
  unfolding update_dataplex_asset_def run_def
  by (subst (asm) snd_try_pure, simp add: handler_simps2)
     (auto simp add: step_simps split: sum.splits option.splits if_splits)

lemma builds_create_dataplex_task:
  "Build ''Task'' args kw \<in> set (calls (snd (create_dataplex_task w p l k t d)))
     \<Longrightarrow> args = [] \<and> (\<exists>d'. rename_type_in ''trigger_spec'' d = Inr d' \<and> kw = kwargs d')"
  unfolding create_dataplex_task_def run_def
  by (subst (asm) snd_try_pure, simp add: handler_simps2)
     (auto simp add: step_simps split: sum.splits option.splits if_splits)

lemma builds_update_dataplex_task:
  "Build ''Task'' args kw \<in> set (calls (snd (update_dataplex_task w p l k t um d)))
     \<Longrightarrow> args = [] \<and> (\<exists>d' n. rename_type_in ''trigger_spec'' d = Inr d'
                                \<and> kw = (''name'', xstr n) # kwargs d')"
  unfolding update_dataplex_task_def run_def
  by (subst (asm) snd_try_pure, simp add: handler_simps2)
     (auto simp add: step_simps split: sum.splits option.splits if_splits)





lemma details_create_dataplex_asset:
  "details (snd (create_dataplex_asset w p l k z a d)) = d
   \<or> rename_type_in ''resource_spec'' d = Inr (details (snd (create_dataplex_asset w p l k z a d)))"
  unfolding create_dataplex_asset_def run_def
  by (subst snd_try_pure, simp add: handler_simps2)+
     (simp add: step_simps split: sum.split option.split)






subsection \<open>What the rename leaves alone\<close>

lemma rename_type_other_keys:
  "key \<noteq> ''type'' \<Longrightarrow> key \<noteq> ''type_'' \<Longrightarrow> dict_get key (rename_type d) = dict_get key d"
  by (simp add: rename_type_def dict_get_set dict_get_del split: option.split)

lemma rename_type_moves_value:
  "dict_get ''type'' d = Some v \<Longrightarrow> dict_get ''type_'' (rename_type d) = Some v"
  by (simp add: rename_type_def dict_get_set)

lemma rename_type_in_cases:
  assumes "rename_type_in k d = Inr d'"
  shows "d' = d \<or> (\<exists>sub. dict_get k d = Some (PDict sub) \<and> dict_has ''type'' sub
                       \<and> d' = dict_set k (PDict (rename_type sub)) d)"
proof (cases "dict_get k d")
  case None
  with assms show ?thesis
    by (simp add: rename_type_in_def)
next
  case (Some v)
  show ?thesis
  proof (cases v)
    case (PDict sub)
    with Some assms show ?thesis
      by (auto simp: rename_type_in_dict split: if_splits)
  qed (use assms Some in \<open>auto simp: rename_type_in_def split: if_splits bool.splits\<close>)
qed

lemma rename_type_in_other_keys:
  assumes "rename_type_in k d = Inr d'" and "key \<noteq> k"
  shows "dict_get key d' = dict_get key d"
  using rename_type_in_cases [OF assms(1)] assms(2) by (auto simp: dict_get_set)

lemma rename_type_in_at_key:
  assumes "rename_type_in k d = Inr d'"
  shows "dict_get k d' = dict_get k d
         \<or> (\<exists>sub. dict_get k d = Some (PDict sub) \<and> dict_get k d' = Some (PDict (rename_type sub)))"
  using rename_type_in_cases [OF assms] by (auto simp: dict_get_set)


subsection \<open>No check of the identifying strings\<close>

lemma sends_get_dataplex_lake:
  "library_ok w \<Longrightarrow> \<not> no_network (snd (get_dataplex_lake w p l k))"
  unfolding get_dataplex_lake_def run_def
  by (rule network_in_log, subst snd_try_pure, simp add: handler_simps2,
      simp add: lib_pbind, rule rpc_sent, intro sound_intros)

lemma sends_list_dataplex_lakes:
  "library_ok w \<Longrightarrow> \<not> no_network (snd (list_dataplex_lakes w p l f))"
  unfolding list_dataplex_lakes_def run_def
  by (rule network_in_log, subst snd_try_pure, simp add: handler_simps2,
      simp add: lib_pbind, rule rpc_sent, intro sound_intros)

lemma sends_delete_dataplex_lake:
  "library_ok w \<Longrightarrow> \<not> no_network (snd (delete_dataplex_lake w p l k))"
  unfolding delete_dataplex_lake_def run_def
  by (rule network_in_log, subst snd_try_pure, simp add: handler_simps2,
      simp add: lib_pbind, rule rpc_sent, intro sound_intros)

lemma sends_create_dataplex_lake:
  "library_ok w \<Longrightarrow> \<not> no_network (snd (create_dataplex_lake w p l k d))"
  unfolding create_dataplex_lake_def run_def
  by (rule network_in_log, subst snd_try_pure, simp add: handler_simps2,
      simp add: lib_pbind, rule rpc_sent, intro sound_intros)

lemma sends_get_dataplex_zone:
  "library_ok w \<Longrightarrow> \<not> no_network (snd (get_dataplex_zone w p l k z))"
  unfolding get_dataplex_zone_def run_def
  by (rule network_in_log, subst snd_try_pure, simp add: handler_simps2,
      simp add: lib_pbind, rule rpc_sent, intro sound_intros)

lemma sends_list_dataplex_zones:
  "library_ok w \<Longrightarrow> \<not> no_network (snd (list_dataplex_zones w p l k f))"
  unfolding list_dataplex_zones_def run_def
  by (rule network_in_log, subst snd_try_pure, simp add: handler_simps2,
      simp add: lib_pbind, rule rpc_sent, intro sound_intros)

lemma sends_delete_dataplex_zone:
  "library_ok w \<Longrightarrow> \<not> no_network (snd (delete_dataplex_zone w p l k z))"
  unfolding delete_dataplex_zone_def run_def
  by (rule network_in_log, subst snd_try_pure, simp add: handler_simps2,
      simp add: lib_pbind, rule rpc_sent, intro sound_intros)

lemma sends_get_dataplex_asset:
  "library_ok w \<Longrightarrow> \<not> no_network (snd (get_dataplex_asset w p l k z a))"
  unfolding get_dataplex_asset_def run_def
  by (rule network_in_log, subst snd_try_pure, simp add: handler_simps2,
      simp add: lib_pbind, rule rpc_sent, intro sound_intros)

lemma sends_list_dataplex_assets:
  "library_ok w \<Longrightarrow> \<not> no_network (snd (list_dataplex_assets w p l k z f))"
  unfolding list_dataplex_assets_def run_def
  by (rule network_in_log, subst snd_try_pure, simp add: handler_simps2,
      simp add: lib_pbind, rule rpc_sent, intro sound_intros)

lemma sends_delete_dataplex_asset:
  "library_ok w \<Longrightarrow> \<not> no_network (snd (delete_dataplex_asset w p l k z a))"
  unfolding delete_dataplex_asset_def run_def
  by (rule network_in_log, subst snd_try_pure, simp add: handler_simps2,
      simp add: lib_pbind, rule rpc_sent, intro sound_intros)

lemma sends_get_dataplex_task:
  "library_ok w \<Longrightarrow> \<not> no_network (snd (get_dataplex_task w p l k t))"
  unfolding get_dataplex_task_def run_def
  by (rule network_in_log, subst snd_try_pure, simp add: handler_simps2,
      simp add: lib_pbind, rule rpc_sent, intro sound_intros)

lemma sends_list_dataplex_tasks:
  "library_ok w \<Longrightarrow> \<not> no_network (snd (list_dataplex_tasks w p l k f))"
  unfolding list_dataplex_tasks_def run_def
  by (rule network_in_log, subst snd_try_pure, simp add: handler_simps2,
      simp add: lib_pbind, rule rpc_sent, intro sound_intros)

lemma sends_delete_dataplex_task:
  "library_ok w \<Longrightarrow> \<not> no_network (snd (delete_dataplex_task w p l k t))"
  unfolding delete_dataplex_task_def run_def
  by (rule network_in_log, subst snd_try_pure, simp add: handler_simps2,
      simp add: lib_pbind, rule rpc_sent, intro sound_intros)

lemma sends_run_dataplex_task:
  "library_ok w \<Longrightarrow> \<not> no_network (snd (run_dataplex_task w p l k t))"
  unfolding run_dataplex_task_def run_def
  by (rule network_in_log, subst snd_try_pure, simp add: handler_simps2,
      simp add: lib_pbind, rule rpc_sent, intro sound_intros)

lemma sends_get_dataplex_job:
  "library_ok w \<Longrightarrow> \<not> no_network (snd (get_dataplex_job w p l k t j))"
  unfolding get_dataplex_job_def run_def
  by (rule network_in_log, subst snd_try_pure, simp add: handler_simps2,
      simp add: lib_pbind, rule rpc_sent, intro sound_intros)

lemma sends_list_dataplex_jobs:
  "library_ok w \<Longrightarrow> \<not> no_network (snd (list_dataplex_jobs w p l k t))"
  unfolding list_dataplex_jobs_def run_def
  by (rule network_in_log, subst snd_try_pure, simp add: handler_simps2,
      simp add: lib_pbind, rule rpc_sent, intro sound_intros)

lemma sends_cancel_dataplex_job:
  "library_ok w \<Longrightarrow> \<not> no_network (snd (cancel_dataplex_job w p l k t j))"
  unfolding cancel_dataplex_job_def run_def
  by (rule network_in_log, subst snd_try_pure, simp add: handler_simps2,
      simp add: lib_pbind, rule rpc_sent, intro sound_intros)

lemma search_dataplex_catalog_empty:
  "project_id = [] \<or> location_id = [] \<or> query = [] \<Longrightarrow>
   search_dataplex_catalog w project_id location_id query
     = (Inl (PyException ''ValueError''
               ''project_id, location_id, and query must be provided.''),
        \<lparr>calls = [Raised (PyException ''ValueError''
                             ''project_id, location_id, and query must be provided.'')],
         details = []\<rparr>)"
  unfolding search_dataplex_catalog_def by (auto simp: run_def raise_def)

subsection \<open>Where an invalid-argument result comes from\<close>

lemma returns_pbind: "(\<And>x. returns P (f x)) \<Longrightarrow> returns P (pbind m f)"
  unfolding returns_def
proof
  fix s
  assume f: "\<And>x. \<forall>s. case fst (f x s) of Inl e \<Rightarrow> True | Inr v \<Rightarrow> P v"
  obtain r s' where ms: "m s = (r, s')"
    by (cases "m s")
  show "case fst (pbind m f s) of Inl e \<Rightarrow> True | Inr v \<Rightarrow> P v"
  proof (cases r)
    case (Inl e)
    with ms show ?thesis
      by (simp add: pbind_def)
  next
    case (Inr x)
    with ms f [of x] show ?thesis
      by (simp add: pbind_def)
  qed
qed

lemma returns_handle_lro:
  "returns (\<lambda>v. \<forall>t. v \<noteq> error_dict (''Invalid argument: '' @ t)) (handle_lro w operation desc)"
  unfolding returns_def
  by (cases operation)
     (simp_all add: handle_lro_def pbind_def op_exc_def op_name_def op_metadata_def ext_def
        raise_def ret_def error_dict_def split: sum.split option.split)

lemma invalid_argument_only_if:
  assumes m: "sound m" and h: "pure_handler h"
    and r: "returns (\<lambda>v. \<forall>t. v \<noteq> error_dict (''Invalid argument: '' @ t)) m"
    and c: "\<And>e. fst (h e \<lparr>calls = [], details = []\<rparr>) = Inr (error_dict (''Invalid argument: '' @ t))
              \<Longrightarrow> \<exists>x. e = InvalidArgument x \<and> message x = t"
    and out: "fst (run d (try_except m h)) = Inr (error_dict (''Invalid argument: '' @ t))"
  shows "\<exists>x. Raised (InvalidArgument x) \<in> set (calls (snd (run d (try_except m h))))
             \<and> message x = t"
  using m h clean_start [of d]
proof (cases rule: try_cases)
  case (normal x s')
  with out have "x = error_dict (''Invalid argument: '' @ t)"
    by (simp add: run_def)
  moreover from r have "case fst (m \<lparr>calls = [], details = d\<rparr>) of
        Inr v \<Rightarrow> \<forall>t. v \<noteq> error_dict (''Invalid argument: '' @ t) | Inl e \<Rightarrow> True"
    unfolding returns_def by (rule spec)
  with normal(2) have "\<forall>t. x \<noteq> error_dict (''Invalid argument: '' @ t)"
    by simp
  ultimately show ?thesis
    by blast
next
  case (caught e s' pre)
  with out have "fst (h e \<lparr>calls = [], details = []\<rparr>) = Inr (error_dict (''Invalid argument: '' @ t))"
    by (simp add: run_def)
  from c [OF this] obtain x where "e = InvalidArgument x" and "message x = t"
    by blast
  with caught show ?thesis
    by (auto simp: run_def)
qed

lemma invalid_argument_only_if_create_dataplex_asset:
  "fst (create_dataplex_asset w p l k z a d) = Inr (error_dict (''Invalid argument: '' @ msg))
   \<Longrightarrow> \<exists>x. Raised (InvalidArgument x) \<in> set (calls (snd (create_dataplex_asset w p l k z a d)))
             \<and> message x = msg"
  unfolding create_dataplex_asset_def
  apply (rule invalid_argument_only_if)
      apply ((intro sound_intros)[1])
     apply (simp add: handler_simps2)
    apply ((intro returns_pbind returns_handle_lro)[1])
   apply (case_tac e; simp add: ret_def propagate_def error_dict_def split: if_splits)
  apply assumption
  done

lemma invalid_argument_if_create_dataplex_asset:
  "Raised (InvalidArgument x) \<in> set (calls (snd (create_dataplex_asset w p l k z a d)))
   \<Longrightarrow> fst (create_dataplex_asset w p l k z a d) = Inr (error_dict (''Invalid argument: '' @ message x))"
  unfolding create_dataplex_asset_def
  apply (subst raised_in_log)
     apply ((intro sound_intros)[1])
    apply (simp add: handler_simps2)
   apply assumption
  apply (simp add: ret_def)
  done

lemma invalid_argument_create_dataplex_asset:
  "fst (create_dataplex_asset w p l k z a d) = Inr (error_dict (''Invalid argument: '' @ msg))
   \<longleftrightarrow> (\<exists>x. Raised (InvalidArgument x) \<in> set (calls (snd (create_dataplex_asset w p l k z a d)))
            \<and> message x = msg)"
  using invalid_argument_only_if_create_dataplex_asset invalid_argument_if_create_dataplex_asset by blast

lemma invalid_argument_only_if_create_dataplex_task:
  "fst (create_dataplex_task w p l k t d) = Inr (error_dict (''Invalid argument: '' @ msg))
   \<Longrightarrow> \<exists>x. Raised (InvalidArgument x) \<in> set (calls (snd (create_dataplex_task w p l k t d)))
             \<and> message x = msg"
  unfolding create_dataplex_task_def
  apply (rule invalid_argument_only_if)
      apply ((intro sound_intros)[1])
     apply (simp add: handler_simps2)
    apply ((intro returns_pbind returns_handle_lro)[1])
   apply (case_tac e; simp add: ret_def propagate_def error_dict_def split: if_splits)
  apply assumption
  done

lemma invalid_argument_if_create_dataplex_task:
  "Raised (InvalidArgument x) \<in> set (calls (snd (create_dataplex_task w p l k t d)))
   \<Longrightarrow> fst (create_dataplex_task w p l k t d) = Inr (error_dict (''Invalid argument: '' @ message x))"
  unfolding create_dataplex_task_def
  apply (subst raised_in_log)
     apply ((intro sound_intros)[1])
    apply (simp add: handler_simps2)
   apply assumption
  apply (simp add: ret_def)
  done

lemma invalid_argument_create_dataplex_task:
  "fst (create_dataplex_task w p l k t d) = Inr (error_dict (''Invalid argument: '' @ msg))
   \<longleftrightarrow> (\<exists>x. Raised (InvalidArgument x) \<in> set (calls (snd (create_dataplex_task w p l k t d)))
            \<and> message x = msg)"
  using invalid_argument_only_if_create_dataplex_task invalid_argument_if_create_dataplex_task by blast

lemma create_dataplex_asset_sent:
  assumes "library_ok w" and "rename_type_in ''resource_spec'' d = Inr d'"
  shows "\<exists>parent. Rpc ''create_asset'' (XMsg ''CreateAssetRequest'' []
           [(''parent'', xstr parent), (''asset_id'', xstr a),
            (''asset'', XMsg ''Asset'' [] (kwargs d'))])
         \<in> set (calls (snd (create_dataplex_asset w p l k z a d)))"
  unfolding create_dataplex_asset_def run_def
  by (rule exI [of _ "path_name w [NewClient ''DataplexServiceClient'' []] ''zone_path''
        [p, l, k, z]"], subst snd_try_pure, simp add: handler_simps2,
      simp add: assms lib_pbind pbind_rename_nested_step,
      rule rpc_sent, intro sound_intros)

lemma create_dataplex_task_sent:
  assumes "library_ok w" and "rename_type_in ''trigger_spec'' d = Inr d'"
  shows "\<exists>parent. Rpc ''create_task'' (XMsg ''CreateTaskRequest'' []
           [(''parent'', xstr parent), (''task_id'', xstr t),
            (''task'', XMsg ''Task'' [] (kwargs d'))])
         \<in> set (calls (snd (create_dataplex_task w p l k t d)))"
  unfolding create_dataplex_task_def run_def
  by (rule exI [of _ "path_name w [NewClient ''DataplexServiceClient'' []] ''lake_path''
        [p, l, k]"], subst snd_try_pure, simp add: handler_simps2,
      simp add: assms lib_pbind pbind_rename_nested_step,
      rule rpc_sent, intro sound_intros)

lemma rename_type_in_keeps_absent:
  assumes "rename_type_in k d = Inr d'" and "\<not> dict_has key d"
  shows "\<not> dict_has key d'"
proof (cases "key = k")
  case True
  with assms rename_type_in_absent [of k d] show ?thesis
    by simp
next
  case False
  with rename_type_in_other_keys [OF assms(1), of key] assms(2) show ?thesis
    by (simp add: dict_has_get)
qed

subsection \<open>With the library calls succeeding\<close>

lemma build_stays:
  assumes "sound m" and "Build c a k \<in> set (calls s)"
  shows "Build c a k \<in> set (calls (snd (m s)))"
  using assms by (rule sound_grows)









lemma zone_built:
  "library_ok w \<Longrightarrow>
   Build ''Zone'' [] (kwargs (rename_type d))
     \<in> set (calls (snd (create_dataplex_zone w p l k z d)))"
  unfolding create_dataplex_zone_def run_def
  by (subst snd_try_pure, simp add: handler_simps2, simp add: lib_pbind,
      rule build_stays, (intro sound_intros)[1], simp)

lemma asset_built:
  "library_ok w \<Longrightarrow> rename_type_in ''resource_spec'' d = Inr d' \<Longrightarrow>
   Build ''Asset'' [] (kwargs d') \<in> set (calls (snd (create_dataplex_asset w p l k z a d)))"
  unfolding create_dataplex_asset_def run_def
  by (subst snd_try_pure, simp add: handler_simps2,
      simp add: lib_pbind pbind_rename_nested_step,
      rule build_stays, (intro sound_intros)[1], simp)

section \<open>The claims\<close>





text \<open>
  C7. The rename step is idempotent. On a dictionary, \<open>rename_type\<close> applied twice is
  \<open>rename_type\<close> applied once, and a dictionary without the key \<open>type\<close> is left as it
  is. The nested step of the asset and task functions, when it does not raise, yields a
  dictionary on which it changes nothing more.
\<close>

theorem rename_idempotent:
  "rename_type (rename_type d) = rename_type d
   \<and> (\<not> dict_has ''type'' d \<longrightarrow> rename_type d = d)
   \<and> (\<forall>c'. rename_type_in k c = Inr c' \<longrightarrow> rename_type_in k c' = Inr c')"
  using rename_type_twice rename_type_absent rename_type_in_twice by blast

theorem rename_idempotent_witness:
  "rename_type (rename_type [(''type_'', PStr ''RAW'')]) = [(''type_'', PStr ''RAW'')]
   \<and> rename_type [(''type_'', PStr ''RAW'')] = [(''type_'', PStr ''RAW'')]
   \<and> rename_type_in ''resource_spec''
         [(''resource_spec'', PDict [(''type'', PStr ''STORAGE_BUCKET'')])]
       = Inr [(''resource_spec'', PDict [(''type_'', PStr ''STORAGE_BUCKET'')])]
   \<and> rename_type_in ''resource_spec''
         [(''resource_spec'', PDict [(''type_'', PStr ''STORAGE_BUCKET'')])]
       = Inr [(''resource_spec'', PDict [(''type_'', PStr ''STORAGE_BUCKET'')])]"
proof -
  have a: "\<not> dict_has ''type'' [(''type_'', PStr ''RAW'')]"
    by (simp add: dict_has_def)
  have b: "rename_type_in ''resource_spec''
             [(''resource_spec'', PDict [(''type'', PStr ''STORAGE_BUCKET'')])]
           = Inr [(''resource_spec'', PDict [(''type_'', PStr ''STORAGE_BUCKET'')])]"
    by (simp add: rename_type_in_def dict_simps)
  from rename_idempotent [of "[(''type_'', PStr ''RAW'')]" "''resource_spec''"
      "[(''resource_spec'', PDict [(''type'', PStr ''STORAGE_BUCKET'')])]"] a b
  show ?thesis
    by simp
qed

text \<open>
  C10. Whatever its arguments and whatever the world, \<open>submit_dataproc_job\<close> run in
  the namespace of its module raises NameError at its first statement: the log holds
  that exception and nothing else, so no validation ran and no request was built or
  sent. The module binds neither \<open>job_client\<close> nor \<open>InvalidArgument\<close>.
\<close>

theorem submit_dataproc_job_name_error:
  "submit_dataproc_job common_tools_globals w project_id region cluster_name job_type
       job_details job_id_prefix labels
     = (Inl (PyException ''NameError''
               (''name '' @ sq @ ''job_client'' @ sq @ '' is not defined'')),
        \<lparr>calls = [Raised (PyException ''NameError''
                             (''name '' @ sq @ ''job_client'' @ sq @ '' is not defined''))],
         details = []\<rparr>)
   \<and> common_tools_globals ''job_client'' = None
   \<and> common_tools_globals ''InvalidArgument'' = None"
  by (simp add: submit_dataproc_job_def common_tools_globals_def common_tools_names_def
      load_global_def prog_simps)

theorem submit_dataproc_job_name_error_witness:
  "fst (submit_dataproc_job common_tools_globals (world_with (Inr (RJob ''j1'' ''PENDING''
          ''c1'' ''pyspark_job''))) ''proj'' ''us-central1'' ''c1'' ''pyspark''
          (PDict [(''main_python_file_uri'', PStr ''gs://bucket/job.py'')]) ''agent-job'' PNone)
     = Inl (PyException ''NameError'' (''name '' @ sq @ ''job_client'' @ sq @ '' is not defined''))
   \<and> no_network (snd (submit_dataproc_job common_tools_globals (world_with (Inr (RJob ''j1''
          ''PENDING'' ''c1'' ''pyspark_job''))) ''proj'' ''us-central1'' ''c1'' ''pyspark''
          (PDict [(''main_python_file_uri'', PStr ''gs://bucket/job.py'')]) ''agent-job'' PNone))"
  using submit_dataproc_job_name_error [of "world_with (Inr (RJob ''j1'' ''PENDING''
          ''c1'' ''pyspark_job''))" "''proj''" "''us-central1''" "''c1''" "''pyspark''"
          "PDict [(''main_python_file_uri'', PStr ''gs://bucket/job.py'')]" "''agent-job''" PNone]
  by (simp add: no_network_def)

text \<open>
  C5. When the library calls of \<open>cancel_dataplex_job\<close> succeed and the remote
  \<open>cancel_job\<close> raises a \<open>GoogleAPICallError\<close> with code 400 whose message, lower
  case, contains \<open>invalid state\<close> or \<open>terminal state\<close>, the function returns the
  terminal-state error for that job. Any other \<open>GoogleAPICallError\<close> that is not
  \<open>NotFound\<close> and does not pass the terminal-state test yields the generic API error,
  and the two results are different values.
\<close>

theorem cancel_terminal_state_distinct:
  assumes "library_ok w" and "library_ok w'"
    and "\<forall>tr x. remote w tr ''cancel_job'' x = Inl e"
    and "\<forall>tr x. remote w' tr ''cancel_job'' x = Inl e'"
    and "is_GoogleAPICallError e" and "code_of e = Some 400"
    and "sub_in ''invalid state'' (lower (message_of e))
         \<or> sub_in ''terminal state'' (lower (message_of e))"
    and "is_GoogleAPICallError e'" and "\<not> is_NotFound e'" and "\<not> already_terminal e'"
  shows "fst (cancel_dataplex_job w p l k t j)
           = Inr (error_dict (''Job '' @ j @ '' is already in a terminal state.''))
       \<and> fst (cancel_dataplex_job w' p l k t j)
           = Inr (error_dict (''API Error cancelling job: '' @ message_of e'))
       \<and> fst (cancel_dataplex_job w p l k t j) \<noteq> fst (cancel_dataplex_job w' p l k t j)"
proof -
  from assms(5,7) have "sub_in ''invalid state'' (lower (str_of e))
                        \<or> sub_in ''terminal state'' (lower (str_of e))"
    by (auto intro: sub_in_lower_str_of)
  with assms(6) have at: "already_terminal e"
    by (simp add: already_terminal_def)
  from assms(6) have nf: "\<not> is_NotFound e"
    by (rule code_400_not_found)
  have a: "fst (cancel_dataplex_job w p l k t j)
             = Inr (error_dict (''Job '' @ j @ '' is already in a terminal state.''))"
    using assms(1,3,5) at nf
    by (simp add: cancel_dataplex_job_def run_def try_except_def pbind_def lib_simps rpc_def
        ext_def ret_def)
  have b: "fst (cancel_dataplex_job w' p l k t j)
             = Inr (error_dict (''API Error cancelling job: '' @ message_of e'))"
    using assms(2,4,8,9,10)
    by (simp add: cancel_dataplex_job_def run_def try_except_def pbind_def lib_simps rpc_def
        ext_def ret_def)
  from a b show ?thesis
    by (simp add: error_dict_def)
qed

theorem cancel_terminal_state_distinct_witness:
  "fst (cancel_dataplex_job
          (world_with (Inl (GoogleAPICallError (Some 400)
             \<lparr>message = ''Job is in a Terminal State'', str_pre = ''400 '', str_post = []\<rparr>)))
          ''p'' ''us-central1'' ''sales'' ''etl'' ''run-7'')
     = Inr (error_dict ''Job run-7 is already in a terminal state.'')
   \<and> fst (cancel_dataplex_job
          (world_with (Inl (GoogleAPICallError (Some 403)
             \<lparr>message = ''permission denied'', str_pre = ''403 '', str_post = []\<rparr>)))
          ''p'' ''us-central1'' ''sales'' ''etl'' ''run-7'')
     = Inr (error_dict ''API Error cancelling job: permission denied'')"
proof -
  let ?e = "GoogleAPICallError (Some 400)
             \<lparr>message = ''Job is in a Terminal State'', str_pre = ''400 '', str_post = []\<rparr>"
  let ?e' = "GoogleAPICallError (Some 403)
             \<lparr>message = ''permission denied'', str_pre = ''403 '', str_post = []\<rparr>"
  have 1: "library_ok (world_with (Inl ?e))" and 2: "library_ok (world_with (Inl ?e'))"
    by (rule library_ok_world_with)+
  have 3: "\<forall>tr x. remote (world_with (Inl ?e)) tr ''cancel_job'' x = Inl ?e"
    and 4: "\<forall>tr x. remote (world_with (Inl ?e')) tr ''cancel_job'' x = Inl ?e'"
    by (simp_all add: world_with_def)
  have 5: "is_GoogleAPICallError ?e" and 6: "code_of ?e = Some 400"
    and 8: "is_GoogleAPICallError ?e'" and 9: "\<not> is_NotFound ?e'"
    and 10: "\<not> already_terminal ?e'"
    by (simp_all add: already_terminal_def)
  have 7: "sub_in ''invalid state'' (lower (message_of ?e))
           \<or> sub_in ''terminal state'' (lower (message_of ?e))"
    by code_simp
  from cancel_terminal_state_distinct [OF 1 2 3 4 5 6 7 8 9 10,
      of "''p''" "''us-central1''" "''sales''" "''etl''" "''run-7''"]
  show ?thesis
    by simp
qed




text \<open>
  C3, as the code has it. Only \<open>search_dataplex_catalog\<close> checks its identifying
  strings: when one of them is empty it raises ValueError to the caller, before any
  client or request is constructed and without any network call. The functions of
  dataplex\_service\_tools.py that take identifying strings only, and
  \<open>create_dataplex_lake\<close>, make no such check: whatever the strings are, empty or not,
  they are handed to the client's path helper, and when the library calls succeed the
  request is sent to the remote service.
\<close>

theorem no_emptiness_check_before_request:
  "(project_id = [] \<or> location_id = [] \<or> query = [] \<longrightarrow>
      search_dataplex_catalog w project_id location_id query
        = (Inl (PyException ''ValueError''
                  ''project_id, location_id, and query must be provided.''),
           \<lparr>calls = [Raised (PyException ''ValueError''
                                ''project_id, location_id, and query must be provided.'')],
            details = []\<rparr>))
   \<and> (library_ok w \<longrightarrow>
        \<not> no_network (snd (get_dataplex_lake w p l k))
        \<and> \<not> no_network (snd (list_dataplex_lakes w p l f))
        \<and> \<not> no_network (snd (delete_dataplex_lake w p l k))
        \<and> \<not> no_network (snd (create_dataplex_lake w p l k d))
        \<and> \<not> no_network (snd (get_dataplex_zone w p l k z))
        \<and> \<not> no_network (snd (list_dataplex_zones w p l k f))
        \<and> \<not> no_network (snd (delete_dataplex_zone w p l k z))
        \<and> \<not> no_network (snd (get_dataplex_asset w p l k z a))
        \<and> \<not> no_network (snd (list_dataplex_assets w p l k z f))
        \<and> \<not> no_network (snd (delete_dataplex_asset w p l k z a))
        \<and> \<not> no_network (snd (get_dataplex_task w p l k t))
        \<and> \<not> no_network (snd (list_dataplex_tasks w p l k f))
        \<and> \<not> no_network (snd (delete_dataplex_task w p l k t))
        \<and> \<not> no_network (snd (run_dataplex_task w p l k t))
        \<and> \<not> no_network (snd (get_dataplex_job w p l k t j))
        \<and> \<not> no_network (snd (list_dataplex_jobs w p l k t))
        \<and> \<not> no_network (snd (cancel_dataplex_job w p l k t j)))"
proof (intro conjI impI)
  assume "project_id = [] \<or> location_id = [] \<or> query = []"
  then show "search_dataplex_catalog w project_id location_id query
        = (Inl (PyException ''ValueError''
                  ''project_id, location_id, and query must be provided.''),
           \<lparr>calls = [Raised (PyException ''ValueError''
                                ''project_id, location_id, and query must be provided.'')],
            details = []\<rparr>)"
    by (rule search_dataplex_catalog_empty)
qed (erule sends_get_dataplex_lake sends_list_dataplex_lakes sends_delete_dataplex_lake sends_create_dataplex_lake sends_get_dataplex_zone sends_list_dataplex_zones sends_delete_dataplex_zone sends_get_dataplex_asset sends_list_dataplex_assets sends_delete_dataplex_asset sends_get_dataplex_task sends_list_dataplex_tasks sends_delete_dataplex_task sends_run_dataplex_task sends_get_dataplex_job sends_list_dataplex_jobs sends_cancel_dataplex_job)+

theorem no_emptiness_check_before_request_witness:
  "fst (search_dataplex_catalog (world_with (Inr (RPager [] None))) ''p'' [] ''orders'')
     = Inl (PyException ''ValueError'' ''project_id, location_id, and query must be provided.'')
   \<and> no_network (snd (search_dataplex_catalog (world_with (Inr (RPager [] None)))
                          ''p'' [] ''orders''))
   \<and> \<not> no_network (snd (get_dataplex_lake (world_with (Inr (RPager [] None)))
                            ''p'' ''us-central1'' []))"
proof -
  let ?w = "world_with (Inr (RPager [] None))"
  have e: "''p'' = [] \<or> ([]::string) = [] \<or> ''orders'' = []"
    by simp
  have l: "library_ok ?w"
    by (rule library_ok_world_with)
  from no_emptiness_check_before_request [of "''p''" "[]" "''orders''" ?w "''p''"
      "''us-central1''" "[]"] e l
  show ?thesis
    by (simp add: no_network_def)
qed

text \<open>
  C3 as stated fails on \<open>get_dataplex_lake\<close>: with an empty lake id, in a world whose
  path helper formats the name as the client library does, the request is built with
  the name \<open>projects/p/locations/us-central1/lakes/\<close> and sent, and the answer is
  returned.
\<close>

theorem get_dataplex_lake_empty_id_sends_request:
  "get_dataplex_lake
     (world_with (Inr (RMsg (PDict [(''name'', PStr ''projects/p/locations/us-central1/lakes/'')]))))
     ''p'' ''us-central1'' []
   = (Inr (PDict [(''name'', PStr ''projects/p/locations/us-central1/lakes/'')]),
      \<lparr>calls = [NewClient ''DataplexServiceClient'' [],
                PathCall ''lake_path'' [''p'', ''us-central1'', []],
                Build ''GetLakeRequest'' []
                  [(''name'', XVal (PStr ''projects/p/locations/us-central1/lakes/''))],
                Rpc ''get_lake'' (XMsg ''GetLakeRequest'' []
                  [(''name'', XVal (PStr ''projects/p/locations/us-central1/lakes/''))])],
       details = []\<rparr>)"
  by (simp add: get_dataplex_lake_def world_with_def prog_simps)


text \<open>
  C4, as the code has it. \<open>create_dataplex_asset\<close> and \<open>create_dataplex_task\<close>
  make no check of their own on the configuration. An asset configuration without
  \<open>resource_spec\<close> is left as it is and passed unchanged to the \<open>Asset\<close>
  constructor; a task configuration with none of \<open>spark\<close>, \<open>notebook\<close>,
  \<open>sql_script\<close> is passed on after the \<open>trigger_spec\<close> rename, still without them.
  When the library calls succeed the create request is sent to the remote service. The
  function returns the error \<open>Invalid argument: m\<close> exactly when the client library or
  the remote service raised \<open>InvalidArgument\<close> with message \<open>m\<close> during the call.
\<close>

theorem create_without_required_subobject:
  "(\<not> dict_has ''resource_spec'' asset_details \<longrightarrow>
      details (snd (create_dataplex_asset w p l k z a asset_details)) = asset_details
      \<and> (library_ok w \<longrightarrow>
           (\<exists>parent. Rpc ''create_asset'' (XMsg ''CreateAssetRequest'' []
               [(''parent'', xstr parent), (''asset_id'', xstr a),
                (''asset'', XMsg ''Asset'' [] (kwargs asset_details))])
             \<in> set (calls (snd (create_dataplex_asset w p l k z a asset_details)))))
      \<and> (\<forall>msg. fst (create_dataplex_asset w p l k z a asset_details)
                  = Inr (error_dict (''Invalid argument: '' @ msg))
              \<longleftrightarrow> (\<exists>x. Raised (InvalidArgument x)
                         \<in> set (calls (snd (create_dataplex_asset w p l k z a asset_details)))
                       \<and> message x = msg)))
   \<and> (\<not> dict_has ''spark'' task_details \<and> \<not> dict_has ''notebook'' task_details
        \<and> \<not> dict_has ''sql_script'' task_details \<longrightarrow>
      (\<forall>d'. library_ok w \<and> rename_type_in ''trigger_spec'' task_details = Inr d' \<longrightarrow>
           \<not> dict_has ''spark'' d' \<and> \<not> dict_has ''notebook'' d' \<and> \<not> dict_has ''sql_script'' d'
           \<and> (\<exists>parent. Rpc ''create_task'' (XMsg ''CreateTaskRequest'' []
               [(''parent'', xstr parent), (''task_id'', xstr t),
                (''task'', XMsg ''Task'' [] (kwargs d'))])
             \<in> set (calls (snd (create_dataplex_task w p l k t task_details)))))
      \<and> (\<forall>msg. fst (create_dataplex_task w p l k t task_details)
                  = Inr (error_dict (''Invalid argument: '' @ msg))
              \<longleftrightarrow> (\<exists>x. Raised (InvalidArgument x)
                         \<in> set (calls (snd (create_dataplex_task w p l k t task_details)))
                       \<and> message x = msg)))"
proof (intro conjI impI allI)
  assume n: "\<not> dict_has ''resource_spec'' asset_details"
  then have r: "rename_type_in ''resource_spec'' asset_details = Inr asset_details"
    by (rule rename_type_in_absent)
  with details_create_dataplex_asset [of w p l k z a asset_details]
  show "details (snd (create_dataplex_asset w p l k z a asset_details)) = asset_details"
    by auto
  assume "library_ok w"
  from create_dataplex_asset_sent [OF this r]
  show "\<exists>parent. Rpc ''create_asset'' (XMsg ''CreateAssetRequest'' []
               [(''parent'', xstr parent), (''asset_id'', xstr a),
                (''asset'', XMsg ''Asset'' [] (kwargs asset_details))])
             \<in> set (calls (snd (create_dataplex_asset w p l k z a asset_details)))" .
next
  fix msg
  show "fst (create_dataplex_asset w p l k z a asset_details)
                  = Inr (error_dict (''Invalid argument: '' @ msg))
              \<longleftrightarrow> (\<exists>x. Raised (InvalidArgument x)
                         \<in> set (calls (snd (create_dataplex_asset w p l k z a asset_details)))
                       \<and> message x = msg)"
    by (rule invalid_argument_create_dataplex_asset)
next
  fix d'
  assume n: "\<not> dict_has ''spark'' task_details \<and> \<not> dict_has ''notebook'' task_details
        \<and> \<not> dict_has ''sql_script'' task_details"
    and a: "library_ok w \<and> rename_type_in ''trigger_spec'' task_details = Inr d'"
  from a n show "\<not> dict_has ''spark'' d'" "\<not> dict_has ''notebook'' d'"
    "\<not> dict_has ''sql_script'' d'"
    by (auto dest: rename_type_in_keeps_absent)
  from a create_dataplex_task_sent [of w task_details d']
  show "\<exists>parent. Rpc ''create_task'' (XMsg ''CreateTaskRequest'' []
               [(''parent'', xstr parent), (''task_id'', xstr t),
                (''task'', XMsg ''Task'' [] (kwargs d'))])
             \<in> set (calls (snd (create_dataplex_task w p l k t task_details)))"
    by blast
next
  fix msg
  show "fst (create_dataplex_task w p l k t task_details)
                  = Inr (error_dict (''Invalid argument: '' @ msg))
              \<longleftrightarrow> (\<exists>x. Raised (InvalidArgument x)
                         \<in> set (calls (snd (create_dataplex_task w p l k t task_details)))
                       \<and> message x = msg)"
    by (rule invalid_argument_create_dataplex_task)
qed


theorem create_without_required_subobject_witness:
  "details (snd (create_dataplex_asset (world_with (Inr (ROp ''operations/1'' ''md'')))
       ''p'' ''us-central1'' ''sales'' ''raw'' ''bucket'' [(''display_name'', PStr ''b'')]))
     = [(''display_name'', PStr ''b'')]
   \<and> (\<exists>parent. Rpc ''create_asset'' (XMsg ''CreateAssetRequest'' []
               [(''parent'', xstr parent), (''asset_id'', xstr ''bucket''),
                (''asset'', XMsg ''Asset'' [] (kwargs [(''display_name'', PStr ''b'')]))])
         \<in> set (calls (snd (create_dataplex_asset (world_with (Inr (ROp ''operations/1'' ''md'')))
               ''p'' ''us-central1'' ''sales'' ''raw'' ''bucket''
               [(''display_name'', PStr ''b'')]))))
   \<and> (\<exists>parent. Rpc ''create_task'' (XMsg ''CreateTaskRequest'' []
               [(''parent'', xstr parent), (''task_id'', xstr ''etl''),
                (''task'', XMsg ''Task'' []
                   (kwargs [(''trigger_spec'', PDict [(''type_'', PStr ''ON_DEMAND'')])]))])
         \<in> set (calls (snd (create_dataplex_task (world_with (Inr (ROp ''operations/1'' ''md'')))
               ''p'' ''us-central1'' ''sales'' ''etl''
               [(''trigger_spec'', PDict [(''type'', PStr ''ON_DEMAND'')])]))))"
proof -
  let ?w = "world_with (Inr (ROp ''operations/1'' ''md''))"
  let ?a = "[(''display_name'', PStr ''b'')]"
  let ?t = "[(''trigger_spec'', PDict [(''type'', PStr ''ON_DEMAND'')])]"
  let ?t' = "[(''trigger_spec'', PDict [(''type_'', PStr ''ON_DEMAND'')])]"
  have 1: "\<not> dict_has ''resource_spec'' ?a"
    by (simp add: dict_has_def)
  have 2: "\<not> dict_has ''spark'' ?t \<and> \<not> dict_has ''notebook'' ?t \<and> \<not> dict_has ''sql_script'' ?t"
    by (simp add: dict_has_def)
  have 3: "library_ok ?w"
    by (rule library_ok_world_with)
  have 4: "rename_type_in ''trigger_spec'' ?t = Inr ?t'"
    by (simp add: rename_type_in_def dict_simps)
  note T = create_without_required_subobject [of ?a ?w "''p''" "''us-central1''" "''sales''"
      "''raw''" "''bucket''" ?t "''etl''"]
  from T 1 3 have a: "details (snd (create_dataplex_asset ?w ''p'' ''us-central1'' ''sales''
        ''raw'' ''bucket'' ?a)) = ?a
     \<and> (\<exists>parent. Rpc ''create_asset'' (XMsg ''CreateAssetRequest'' []
               [(''parent'', xstr parent), (''asset_id'', xstr ''bucket''),
                (''asset'', XMsg ''Asset'' [] (kwargs ?a))])
         \<in> set (calls (snd (create_dataplex_asset ?w ''p'' ''us-central1'' ''sales'' ''raw''
               ''bucket'' ?a))))"
    by blast
  from T 2 3 4 have b: "\<exists>parent. Rpc ''create_task'' (XMsg ''CreateTaskRequest'' []
               [(''parent'', xstr parent), (''task_id'', xstr ''etl''),
                (''task'', XMsg ''Task'' [] (kwargs ?t'))])
         \<in> set (calls (snd (create_dataplex_task ?w ''p'' ''us-central1'' ''sales'' ''etl'' ?t)))"
    by blast
  from a b show ?thesis
    by blast
qed

text \<open>
  C4 as stated fails: an asset configuration without \<open>resource_spec\<close>, and a task
  configuration without \<open>spark\<close>, \<open>notebook\<close> or \<open>sql_script\<close>, are sent to a
  remote service that accepts them, and the pending operation is returned.
\<close>

theorem create_dataplex_asset_without_resource_spec_is_sent:
  "fst (create_dataplex_asset (world_with (Inr (ROp ''operations/1'' ''md'')))
       ''p'' ''us-central1'' ''sales'' ''raw'' ''bucket'' [(''display_name'', PStr ''b'')])
     = Inr (PDict [(''status'', PStr ''pending''), (''operation_name'', PStr ''operations/1''),
                   (''metadata'', PStr ''md'')])
   \<and> calls (snd (create_dataplex_asset (world_with (Inr (ROp ''operations/1'' ''md'')))
       ''p'' ''us-central1'' ''sales'' ''raw'' ''bucket'' [(''display_name'', PStr ''b'')]))
     = [NewClient ''DataplexServiceClient'' [],
        PathCall ''zone_path'' [''p'', ''us-central1'', ''sales'', ''raw''],
        Build ''Asset'' [] [(''display_name'', XVal (PStr ''b''))],
        Build ''CreateAssetRequest'' []
          [(''parent'', XVal (PStr ''projects/p/locations/us-central1/lakes/sales/zones/raw'')),
           (''asset_id'', XVal (PStr ''bucket'')),
           (''asset'', XMsg ''Asset'' [] [(''display_name'', XVal (PStr ''b''))])],
        Rpc ''create_asset'' (XMsg ''CreateAssetRequest'' []
          [(''parent'', XVal (PStr ''projects/p/locations/us-central1/lakes/sales/zones/raw'')),
           (''asset_id'', XVal (PStr ''bucket'')),
           (''asset'', XMsg ''Asset'' [] [(''display_name'', XVal (PStr ''b''))])]),
        OpException (ROp ''operations/1'' ''md'')]
   \<and> fst (create_dataplex_task (world_with (Inr (ROp ''operations/1'' ''md'')))
       ''p'' ''us-central1'' ''sales'' ''etl'' [(''display_name'', PStr ''t'')])
     = Inr (PDict [(''status'', PStr ''pending''), (''operation_name'', PStr ''operations/1''),
                   (''metadata'', PStr ''md'')])
   \<and> \<not> no_network (snd (create_dataplex_task (world_with (Inr (ROp ''operations/1'' ''md'')))
       ''p'' ''us-central1'' ''sales'' ''etl'' [(''display_name'', PStr ''t'')]))"
  by (simp add: create_dataplex_asset_def create_dataplex_task_def world_with_def prog_simps
      rename_type_in_def dict_simps no_network_def)


text \<open>
  C1, as the code has it. Each create or update function renames the key \<open>type\<close> at
  the one place it hard-codes and nowhere else. What reaches the message constructor is:
  for a lake, the configuration as given; for a zone, the configuration after
  \<open>rename_type\<close> (top level only); for an asset, the configuration after the nested
  step on \<open>resource_spec\<close>; for a task, after the nested step on \<open>trigger_spec\<close>
  (the update functions add the keyword \<open>name\<close>). \<open>rename_type\<close> leaves every key
  other than \<open>type\<close> and \<open>type_\<close> with the value it had, nested values included; the
  nested step leaves every other key as it was and changes the value under its key only
  by a \<open>rename_type\<close> of that dictionary.
\<close>

theorem rename_only_where_hard_coded:
  "(\<forall>args kw. Build ''Lake'' args kw \<in> set (calls (snd (create_dataplex_lake w p l k d)))
       \<longrightarrow> args = [XVal (PDict d)] \<and> kw = [])
   \<and> (\<forall>args kw. Build ''Lake'' args kw \<in> set (calls (snd (update_dataplex_lake w p l k um d)))
       \<longrightarrow> args = [] \<and> (\<exists>n. kw = (''name'', xstr n) # kwargs d))
   \<and> (\<forall>args kw. Build ''Zone'' args kw \<in> set (calls (snd (create_dataplex_zone w p l k z d)))
       \<longrightarrow> args = [] \<and> kw = kwargs (rename_type d))
   \<and> (\<forall>args kw. Build ''Zone'' args kw \<in> set (calls (snd (update_dataplex_zone w p l k z um d)))
       \<longrightarrow> args = [] \<and> (\<exists>n. kw = (''name'', xstr n) # kwargs (rename_type d)))
   \<and> (\<forall>args kw. Build ''Asset'' args kw
                   \<in> set (calls (snd (create_dataplex_asset w p l k z a d)))
       \<longrightarrow> args = [] \<and> (\<exists>d'. rename_type_in ''resource_spec'' d = Inr d' \<and> kw = kwargs d'))
   \<and> (\<forall>args kw. Build ''Asset'' args kw
                   \<in> set (calls (snd (update_dataplex_asset w p l k z a um d)))
       \<longrightarrow> args = [] \<and> (\<exists>d' n. rename_type_in ''resource_spec'' d = Inr d'
                                  \<and> kw = (''name'', xstr n) # kwargs d'))
   \<and> (\<forall>args kw. Build ''Task'' args kw \<in> set (calls (snd (create_dataplex_task w p l k t d)))
       \<longrightarrow> args = [] \<and> (\<exists>d'. rename_type_in ''trigger_spec'' d = Inr d' \<and> kw = kwargs d'))
   \<and> (\<forall>args kw. Build ''Task'' args kw
                   \<in> set (calls (snd (update_dataplex_task w p l k t um d)))
       \<longrightarrow> args = [] \<and> (\<exists>d' n. rename_type_in ''trigger_spec'' d = Inr d'
                                  \<and> kw = (''name'', xstr n) # kwargs d'))
   \<and> (\<forall>key. key \<noteq> ''type'' \<and> key \<noteq> ''type_'' \<longrightarrow> dict_get key (rename_type d) = dict_get key d)
   \<and> (\<forall>c d'. rename_type_in c d = Inr d' \<longrightarrow>
         (\<forall>key. key \<noteq> c \<longrightarrow> dict_get key d' = dict_get key d)
         \<and> (dict_get c d' = dict_get c d
            \<or> (\<exists>sub. dict_get c d = Some (PDict sub)
                     \<and> dict_get c d' = Some (PDict (rename_type sub)))))"
proof -
  have 1: "\<forall>args kw. Build ''Lake'' args kw \<in> set (calls (snd (create_dataplex_lake w p l k d)))
       \<longrightarrow> args = [XVal (PDict d)] \<and> kw = []"
    using builds_create_dataplex_lake by blast
  have 2: "\<forall>args kw. Build ''Lake'' args kw \<in> set (calls (snd (update_dataplex_lake w p l k um d)))
       \<longrightarrow> args = [] \<and> (\<exists>n. kw = (''name'', xstr n) # kwargs d)"
    using builds_update_dataplex_lake by blast
  have 3: "\<forall>args kw. Build ''Zone'' args kw \<in> set (calls (snd (create_dataplex_zone w p l k z d)))
       \<longrightarrow> args = [] \<and> kw = kwargs (rename_type d)"
    using builds_create_dataplex_zone by blast
  have 4: "\<forall>args kw. Build ''Zone'' args kw \<in> set (calls (snd (update_dataplex_zone w p l k z um d)))
       \<longrightarrow> args = [] \<and> (\<exists>n. kw = (''name'', xstr n) # kwargs (rename_type d))"
    using builds_update_dataplex_zone by blast
  have 5: "\<forall>args kw. Build ''Asset'' args kw
                   \<in> set (calls (snd (create_dataplex_asset w p l k z a d)))
       \<longrightarrow> args = [] \<and> (\<exists>d'. rename_type_in ''resource_spec'' d = Inr d' \<and> kw = kwargs d')"
    using builds_create_dataplex_asset by blast
  have 6: "\<forall>args kw. Build ''Asset'' args kw
                   \<in> set (calls (snd (update_dataplex_asset w p l k z a um d)))
       \<longrightarrow> args = [] \<and> (\<exists>d' n. rename_type_in ''resource_spec'' d = Inr d'
                                  \<and> kw = (''name'', xstr n) # kwargs d')"
    using builds_update_dataplex_asset by blast
  have 7: "\<forall>args kw. Build ''Task'' args kw \<in> set (calls (snd (create_dataplex_task w p l k t d)))
       \<longrightarrow> args = [] \<and> (\<exists>d'. rename_type_in ''trigger_spec'' d = Inr d' \<and> kw = kwargs d')"
    using builds_create_dataplex_task by blast
  have 8: "\<forall>args kw. Build ''Task'' args kw
                   \<in> set (calls (snd (update_dataplex_task w p l k t um d)))
       \<longrightarrow> args = [] \<and> (\<exists>d' n. rename_type_in ''trigger_spec'' d = Inr d'
                                  \<and> kw = (''name'', xstr n) # kwargs d')"
    using builds_update_dataplex_task by blast
  have 9: "\<forall>key. key \<noteq> ''type'' \<and> key \<noteq> ''type_''
             \<longrightarrow> dict_get key (rename_type d) = dict_get key d"
    by (simp add: rename_type_other_keys)
  have 10: "\<forall>c d'. rename_type_in c d = Inr d' \<longrightarrow>
         (\<forall>key. key \<noteq> c \<longrightarrow> dict_get key d' = dict_get key d)
         \<and> (dict_get c d' = dict_get c d
            \<or> (\<exists>sub. dict_get c d = Some (PDict sub)
                     \<and> dict_get c d' = Some (PDict (rename_type sub))))"
    using rename_type_in_other_keys rename_type_in_at_key by blast
  from 1 2 3 4 5 6 7 8 9 10 show ?thesis
    by (intro conjI)
qed


theorem rename_only_where_hard_coded_witness:
  "Build ''Zone'' [] [(''resource_spec'', XVal (PDict [(''type'', PStr ''STORAGE_BUCKET'')])),
                      (''type_'', XVal (PStr ''RAW''))]
     \<in> set (calls (snd (create_dataplex_zone (world_with (Inr (ROp ''operations/1'' ''md'')))
           ''p'' ''us-central1'' ''sales'' ''raw''
           [(''type'', PStr ''RAW''),
            (''resource_spec'', PDict [(''type'', PStr ''STORAGE_BUCKET'')])])))
   \<and> [(''resource_spec'', XVal (PDict [(''type'', PStr ''STORAGE_BUCKET'')])),
       (''type_'', XVal (PStr ''RAW''))]
     = kwargs (rename_type [(''type'', PStr ''RAW''),
                            (''resource_spec'', PDict [(''type'', PStr ''STORAGE_BUCKET'')])])"
proof -
  let ?w = "world_with (Inr (ROp ''operations/1'' ''md''))"
  let ?d = "[(''type'', PStr ''RAW''),
             (''resource_spec'', PDict [(''type'', PStr ''STORAGE_BUCKET'')])]"
  let ?kw = "[(''resource_spec'', XVal (PDict [(''type'', PStr ''STORAGE_BUCKET'')])),
              (''type_'', XVal (PStr ''RAW''))]"
  have m: "Build ''Zone'' [] ?kw
             \<in> set (calls (snd (create_dataplex_zone ?w ''p'' ''us-central1'' ''sales'' ''raw'' ?d)))"
    by (simp add: create_dataplex_zone_def world_with_def prog_simps rename_type_def dict_simps)
  note T = rename_only_where_hard_coded [of ?w "''p''" "''us-central1''" "''sales''" ?d _
      "''raw''"]
  note T [THEN conjunct2, THEN conjunct2, THEN conjunct1]
  with m have "?kw = kwargs (rename_type ?d)"
    by blast
  with m show ?thesis
    by blast
qed

text \<open>
  C1 as stated fails: a \<open>type\<close> nested in the \<open>resource_spec\<close> of a zone
  configuration, and a \<open>type\<close> at the top level of an asset configuration, reach the
  constructor as they are.
\<close>

theorem nested_type_reaches_the_constructor:
  "Build ''Zone'' [] [(''resource_spec'', XVal (PDict [(''type'', PStr ''STORAGE_BUCKET'')]))]
     \<in> set (calls (snd (create_dataplex_zone (world_with (Inr (ROp ''operations/1'' ''md'')))
           ''p'' ''us-central1'' ''sales'' ''raw''
           [(''resource_spec'', PDict [(''type'', PStr ''STORAGE_BUCKET'')])])))
   \<and> has_type_key (PDict [(''resource_spec'', PDict [(''type'', PStr ''STORAGE_BUCKET'')])])
   \<and> Build ''Asset'' [] [(''type'', XVal (PStr ''T'')),
                          (''resource_spec'', XVal (PDict [(''name'', PStr ''b'')]))]
     \<in> set (calls (snd (create_dataplex_asset (world_with (Inr (ROp ''operations/1'' ''md'')))
           ''p'' ''us-central1'' ''sales'' ''raw'' ''bucket''
           [(''type'', PStr ''T''), (''resource_spec'', PDict [(''name'', PStr ''b'')])])))
   \<and> has_type_key (PDict [(''type'', PStr ''T''),
                            (''resource_spec'', PDict [(''name'', PStr ''b'')])])"
  by (simp add: create_dataplex_zone_def create_dataplex_asset_def world_with_def prog_simps
      rename_type_def rename_type_in_def dict_simps)

text \<open>
  C6. For the zone configuration of the example every \<open>Zone\<close> the function constructs
  gets \<open>type\<close> renamed to \<open>type_\<close> and \<open>resource_spec\<close> as it was; for the asset
  configuration every \<open>Asset\<close> it constructs gets the \<open>type\<close> inside
  \<open>resource_spec\<close> renamed and nothing else. When the library calls succeed the
  constructor is reached with exactly these keyword arguments.
\<close>

theorem rename_examples:
  "(\<forall>args kw. Build ''Zone'' args kw
       \<in> set (calls (snd (create_dataplex_zone w p l k z
             [(''type'', PStr ''RAW''),
              (''resource_spec'', PDict [(''location_type'', PStr ''SINGLE_REGION'')])])))
     \<longrightarrow> args = []
         \<and> kw = kwargs [(''resource_spec'', PDict [(''location_type'', PStr ''SINGLE_REGION'')]),
                         (''type_'', PStr ''RAW'')])
   \<and> (library_ok w \<longrightarrow>
        Build ''Zone'' []
          (kwargs [(''resource_spec'', PDict [(''location_type'', PStr ''SINGLE_REGION'')]),
                   (''type_'', PStr ''RAW'')])
        \<in> set (calls (snd (create_dataplex_zone w p l k z
             [(''type'', PStr ''RAW''),
              (''resource_spec'', PDict [(''location_type'', PStr ''SINGLE_REGION'')])]))))
   \<and> (\<forall>args kw. Build ''Asset'' args kw
       \<in> set (calls (snd (create_dataplex_asset w p l k z a
             [(''resource_spec'', PDict [(''type'', PStr ''STORAGE_BUCKET'')])])))
     \<longrightarrow> args = []
         \<and> kw = kwargs [(''resource_spec'', PDict [(''type_'', PStr ''STORAGE_BUCKET'')])])
   \<and> (library_ok w \<longrightarrow>
        Build ''Asset'' []
          (kwargs [(''resource_spec'', PDict [(''type_'', PStr ''STORAGE_BUCKET'')])])
        \<in> set (calls (snd (create_dataplex_asset w p l k z a
             [(''resource_spec'', PDict [(''type'', PStr ''STORAGE_BUCKET'')])]))))"
proof -
  let ?zc = "[(''type'', PStr ''RAW''),
              (''resource_spec'', PDict [(''location_type'', PStr ''SINGLE_REGION'')])]"
  let ?zr = "[(''resource_spec'', PDict [(''location_type'', PStr ''SINGLE_REGION'')]),
              (''type_'', PStr ''RAW'')]"
  let ?ac = "[(''resource_spec'', PDict [(''type'', PStr ''STORAGE_BUCKET'')])]"
  let ?ar = "[(''resource_spec'', PDict [(''type_'', PStr ''STORAGE_BUCKET'')])]"
  have z: "rename_type ?zc = ?zr"
    by (simp add: rename_type_def dict_simps)
  have a: "rename_type_in ''resource_spec'' ?ac = Inr ?ar"
    by (simp add: rename_type_in_def dict_simps)
  have 1: "\<forall>args kw. Build ''Zone'' args kw
             \<in> set (calls (snd (create_dataplex_zone w p l k z ?zc)))
           \<longrightarrow> args = [] \<and> kw = kwargs ?zr"
    using builds_create_dataplex_zone [of _ _ w p l k z ?zc] z by simp
  have 2: "library_ok w \<longrightarrow>
        Build ''Zone'' [] (kwargs ?zr) \<in> set (calls (snd (create_dataplex_zone w p l k z ?zc)))"
    using zone_built [of w ?zc p l k z] z by simp
  have 3: "\<forall>args kw. Build ''Asset'' args kw
             \<in> set (calls (snd (create_dataplex_asset w p l k z a ?ac)))
           \<longrightarrow> args = [] \<and> kw = kwargs ?ar"
    using builds_create_dataplex_asset [of _ _ w p l k z a ?ac] a by auto
  have 4: "library_ok w \<longrightarrow>
        Build ''Asset'' [] (kwargs ?ar)
          \<in> set (calls (snd (create_dataplex_asset w p l k z a ?ac)))"
    using asset_built [OF _ a, of w p l k z a] by simp
  from 1 2 3 4 show ?thesis
    by (intro conjI)
qed

theorem rename_examples_witness:
  "Build ''Zone'' []
      (kwargs [(''resource_spec'', PDict [(''location_type'', PStr ''SINGLE_REGION'')]),
               (''type_'', PStr ''RAW'')])
     \<in> set (calls (snd (create_dataplex_zone (world_with (Inr (ROp ''operations/1'' ''md'')))
          ''p'' ''us-central1'' ''sales'' ''raw''
          [(''type'', PStr ''RAW''),
           (''resource_spec'', PDict [(''location_type'', PStr ''SINGLE_REGION'')])])))
   \<and> Build ''Asset'' []
      (kwargs [(''resource_spec'', PDict [(''type_'', PStr ''STORAGE_BUCKET'')])])
     \<in> set (calls (snd (create_dataplex_asset (world_with (Inr (ROp ''operations/1'' ''md'')))
          ''p'' ''us-central1'' ''sales'' ''raw'' ''bucket''
          [(''resource_spec'', PDict [(''type'', PStr ''STORAGE_BUCKET'')])])))"
  using rename_examples [of "world_with (Inr (ROp ''operations/1'' ''md''))" "''p''"
      "''us-central1''" "''sales''" "''raw''" "''bucket''"]
    library_ok_world_with [of "Inr (ROp ''operations/1'' ''md'')"]
  by blast





end
